theory Spec2Isabelle
  imports Complex_Main "HOL-Library.Word"
begin

unbundle bit_operations_syntax

section \<open>Go integers, strings and paths\<close>

text \<open>Go's \<open>int\<close> is a 64-bit two's complement integer: a product is reduced to that range.\<close>

definition wrap64 :: "int \<Rightarrow> int" where
  "wrap64 x = (x + 2 ^ 63) mod 2 ^ 64 - 2 ^ 63"

text \<open>
  A Go string is a sequence of bytes; \<^typ>\<open>string\<close> (a list of 8-bit characters) models it
  byte for byte.  The helpers below follow the Go standard library on Unix
  (path separator \<open>/\<close>).
\<close>

definition HasPrefix :: "string \<Rightarrow> string \<Rightarrow> bool" where
  "HasPrefix s p = (take (length p) s = p)"

definition HasSuffix :: "string \<Rightarrow> string \<Rightarrow> bool" where
  "HasSuffix s p = (length p \<le> length s \<and> drop (length s - length p) s = p)"

fun Contains :: "string \<Rightarrow> string \<Rightarrow> bool" where
  "Contains [] sub = (sub = [])"
| "Contains (c # cs) sub = (HasPrefix (c # cs) sub \<or> Contains cs sub)"

text \<open>\<open>strings.ToLower\<close> maps each rune with \<open>unicode.ToLower\<close>.  The runes whose image
  is an ASCII letter are the ASCII capitals, the Kelvin sign \<open>U+212A\<close> (bytes \<open>E2 84 AA\<close>,
  mapped to \<open>k\<close>) and the capital I with dot above \<open>U+0130\<close> (bytes \<open>C4 B0\<close>, mapped to
  \<open>i\<close>); neither byte sequence occurs in UTF-8 other than as that rune.  The bytes of every
  other rune are kept: Go maps such a rune to a non-ASCII rune again (an invalid byte to
  \<open>U+FFFD\<close>), so that on such input the result differs from Go's but, like Go's, is not
  ASCII and hence no key of the language tables.\<close>

definition lower_byte :: "char \<Rightarrow> char" where
  "lower_byte c =
     (case map_of (zip ''ABCDEFGHIJKLMNOPQRSTUVWXYZ'' ''abcdefghijklmnopqrstuvwxyz'') c of
        Some l \<Rightarrow> l
      | None \<Rightarrow> c)"

fun ToLower :: "string \<Rightarrow> string" where
  "ToLower [] = []"
| "ToLower (c # cs) =
     (if HasPrefix (c # cs) [CHR 0xE2, CHR 0x84, CHR 0xAA] then CHR ''k'' # ToLower (drop 2 cs)
      else if HasPrefix (c # cs) [CHR 0xC4, CHR 0xB0] then CHR ''i'' # ToLower (drop 1 cs)
      else lower_byte c # ToLower cs)"

definition IsPathSeparator :: "char \<Rightarrow> bool" where
  "IsPathSeparator c = (c = CHR ''/'')"

text \<open>\<open>filepath.Ext\<close> scans backwards from the end of the path to the last separator and
  returns the suffix that starts at the first dot it meets.\<close>

fun ext_scan :: "string \<Rightarrow> string \<Rightarrow> string" where
  "ext_scan [] acc = []"
| "ext_scan (c # cs) acc =
     (if IsPathSeparator c then []
      else if c = CHR ''.'' then c # acc
      else ext_scan cs (c # acc))"

definition Ext :: "string \<Rightarrow> string" where
  "Ext path = ext_scan (rev path) []"

text \<open>\<open>filepath.Base\<close>: the last element of the path, after trailing separators are
  stripped; \<open>.\<close> for the empty path and \<open>/\<close> for a path of separators only.\<close>

definition Base :: "string \<Rightarrow> string" where
  "Base path =
     (if path = [] then ''.''
      else
        let p = rev (dropWhile IsPathSeparator (rev path));
            e = rev (takeWhile (\<lambda>c. \<not> IsPathSeparator c) (rev p))
        in if e = [] then ''/'' else e)"

section \<open>Language detection (package fs)\<close>

definition LangGo :: string where "LangGo = ''go''"
definition LangTypeScript :: string where "LangTypeScript = ''typescript''"
definition LangJavaScript :: string where "LangJavaScript = ''javascript''"
definition LangPython :: string where "LangPython = ''python''"
definition LangRust :: string where "LangRust = ''rust''"
definition LangJava :: string where "LangJava = ''java''"
definition LangC :: string where "LangC = ''c''"
definition LangCPP :: string where "LangCPP = ''cpp''"
definition LangCSharp :: string where "LangCSharp = ''csharp''"
definition LangRuby :: string where "LangRuby = ''ruby''"
definition LangPHP :: string where "LangPHP = ''php''"
definition LangSwift :: string where "LangSwift = ''swift''"
definition LangKotlin :: string where "LangKotlin = ''kotlin''"
definition LangScala :: string where "LangScala = ''scala''"
definition LangShell :: string where "LangShell = ''shell''"
definition LangSQL :: string where "LangSQL = ''sql''"
definition LangHTML :: string where "LangHTML = ''html''"
definition LangCSS :: string where "LangCSS = ''css''"
definition LangJSON :: string where "LangJSON = ''json''"
definition LangYAML :: string where "LangYAML = ''yaml''"
definition LangTOML :: string where "LangTOML = ''toml''"
definition LangMarkdown :: string where "LangMarkdown = ''markdown''"
definition LangXML :: string where "LangXML = ''xml''"
definition LangText :: string where "LangText = ''text''"
definition LangUnknown :: string where "LangUnknown = ''''"

definition extToLang :: "(string \<times> string) list" where
  "extToLang =
    [(''.go'', LangGo),
     (''.ts'', LangTypeScript), (''.tsx'', LangTypeScript), (''.mts'', LangTypeScript),
     (''.cts'', LangTypeScript), (''.js'', LangJavaScript), (''.jsx'', LangJavaScript),
     (''.mjs'', LangJavaScript), (''.cjs'', LangJavaScript),
     (''.py'', LangPython), (''.pyi'', LangPython), (''.pyw'', LangPython),
     (''.rs'', LangRust),
     (''.java'', LangJava),
     (''.c'', LangC), (''.h'', LangC), (''.cc'', LangCPP), (''.cpp'', LangCPP),
     (''.cxx'', LangCPP), (''.hpp'', LangCPP), (''.hxx'', LangCPP),
     (''.cs'', LangCSharp),
     (''.rb'', LangRuby), (''.rake'', LangRuby),
     (''.php'', LangPHP),
     (''.swift'', LangSwift),
     (''.kt'', LangKotlin), (''.kts'', LangKotlin),
     (''.scala'', LangScala),
     (''.sh'', LangShell), (''.bash'', LangShell), (''.zsh'', LangShell), (''.fish'', LangShell),
     (''.sql'', LangSQL),
     (''.html'', LangHTML), (''.htm'', LangHTML), (''.css'', LangCSS), (''.scss'', LangCSS),
     (''.sass'', LangCSS), (''.less'', LangCSS),
     (''.json'', LangJSON), (''.jsonc'', LangJSON), (''.yaml'', LangYAML), (''.yml'', LangYAML),
     (''.toml'', LangTOML), (''.xml'', LangXML),
     (''.md'', LangMarkdown), (''.markdown'', LangMarkdown), (''.txt'', LangText),
     (''.text'', LangText), (''.rst'', LangText)]"

definition filenameToLang :: "(string \<times> string) list" where
  "filenameToLang =
    [(''Makefile'', LangShell), (''makefile'', LangShell),
     (''Dockerfile'', LangShell), (''dockerfile'', LangShell),
     (''Rakefile'', LangRuby), (''Gemfile'', LangRuby),
     (''Jenkinsfile'', LangShell),
     (''.bashrc'', LangShell), (''.zshrc'', LangShell), (''.profile'', LangShell),
     (''.gitignore'', LangText), (''.gitconfig'', LangText), (''.editorconfig'', LangText)]"

definition DetectLanguage :: "string \<Rightarrow> string" where
  "DetectLanguage path =
     (let filename = Base path in
      case map_of filenameToLang filename of
        Some lang \<Rightarrow> lang
      | None \<Rightarrow>
          (let ext = ToLower (Ext path) in
           case map_of extToLang ext of
             Some lang \<Rightarrow> lang
           | None \<Rightarrow> LangUnknown))"

definition SupportsCodeChunking :: "string \<Rightarrow> bool" where
  "SupportsCodeChunking lang =
     (lang \<in> set [LangGo, LangTypeScript, LangJavaScript, LangPython, LangRust,
                   LangJava, LangC, LangCPP, LangCSharp, LangRuby, LangPHP,
                   LangSwift, LangKotlin, LangScala])"

section \<open>Chunker (package fs)\<close>

subsection \<open>Counting runes, splitting and trimming\<close>

text \<open>\<open>utf8.RuneCountInString\<close> counts one rune for every well-formed UTF-8 sequence and
  one for every byte that does not start one.  \<open>rune_size\<close> is the width in bytes of the
  rune at the head of the string, after the decoder's table of lead bytes and accepted
  ranges for the second byte.\<close>

definition byte_in :: "char \<Rightarrow> nat \<Rightarrow> nat \<Rightarrow> bool" where
  "byte_in c lo hi = (lo \<le> of_char c \<and> of_char c \<le> hi)"

fun rune_size :: "string \<Rightarrow> nat" where
  "rune_size [] = 0"
| "rune_size (c # cs) =
     (let b = (of_char c :: nat) in
      if b < 0xC2 then 1
      else if b < 0xE0 then
        (case cs of
           c1 # _ \<Rightarrow> if byte_in c1 0x80 0xBF then 2 else 1
         | _ \<Rightarrow> 1)
      else if b < 0xF0 then
        (case cs of
           c1 # c2 # _ \<Rightarrow>
             if \<not> byte_in c1 (if b = 0xE0 then 0xA0 else 0x80) (if b = 0xED then 0x9F else 0xBF)
             then 1
             else if \<not> byte_in c2 0x80 0xBF then 1
             else 3
         | _ \<Rightarrow> 1)
      else if b < 0xF5 then
        (case cs of
           c1 # c2 # c3 # _ \<Rightarrow>
             if \<not> byte_in c1 (if b = 0xF0 then 0x90 else 0x80) (if b = 0xF4 then 0x8F else 0xBF)
             then 1
             else if \<not> byte_in c2 0x80 0xBF then 1
             else if \<not> byte_in c3 0x80 0xBF then 1
             else 4
         | _ \<Rightarrow> 1)
      else 1)"

text \<open>The first argument is the number of bytes of the current rune still to skip.\<close>

fun rune_count :: "nat \<Rightarrow> string \<Rightarrow> nat" where
  "rune_count k [] = 0"
| "rune_count (Suc k) (c # cs) = rune_count k cs"
| "rune_count 0 (c # cs) = Suc (rune_count (rune_size (c # cs) - 1) cs)"

definition RuneCountInString :: "string \<Rightarrow> nat" where
  "RuneCountInString s = rune_count 0 s"

text \<open>\<open>strings.Split(content, "\n")\<close>: never the empty list; the empty string gives one
  empty line.\<close>

fun SplitLines :: "string \<Rightarrow> string list" where
  "SplitLines [] = [[]]"
| "SplitLines (c # cs) =
     (if c = CHR 0x0A then [] # SplitLines cs
      else (case SplitLines cs of
              l # ls \<Rightarrow> (c # l) # ls
            | [] \<Rightarrow> [[c]]))"

text \<open>\<open>strings.Join(lines, "\n")\<close>.\<close>

fun JoinLines :: "string list \<Rightarrow> string" where
  "JoinLines [] = []"
| "JoinLines [l] = l"
| "JoinLines (l # ls) = l @ [CHR 0x0A] @ JoinLines ls"

text \<open>\<open>strings.TrimSpace\<close> removes the leading and trailing runes that \<open>unicode.IsSpace\<close>
  accepts.  The table lists their UTF-8 encodings: the six ASCII ones, U+0085, U+00A0,
  U+1680, U+2000 to U+200A, U+2028, U+2029, U+202F, U+205F and U+3000.  Each encoding starts
  with a lead byte, so stripping encodings at either end is what decoding runes there does.\<close>

definition space_runes :: "string list" where
  "space_runes =
    [[CHR 0x09], [CHR 0x0A], [CHR 0x0B], [CHR 0x0C], [CHR 0x0D], [CHR 0x20],
     [CHR 0xC2, CHR 0x85], [CHR 0xC2, CHR 0xA0],
     [CHR 0xE1, CHR 0x9A, CHR 0x80],
     [CHR 0xE2, CHR 0x80, CHR 0x80], [CHR 0xE2, CHR 0x80, CHR 0x81],
     [CHR 0xE2, CHR 0x80, CHR 0x82], [CHR 0xE2, CHR 0x80, CHR 0x83],
     [CHR 0xE2, CHR 0x80, CHR 0x84], [CHR 0xE2, CHR 0x80, CHR 0x85],
     [CHR 0xE2, CHR 0x80, CHR 0x86], [CHR 0xE2, CHR 0x80, CHR 0x87],
     [CHR 0xE2, CHR 0x80, CHR 0x88], [CHR 0xE2, CHR 0x80, CHR 0x89],
     [CHR 0xE2, CHR 0x80, CHR 0x8A],
     [CHR 0xE2, CHR 0x80, CHR 0xA8], [CHR 0xE2, CHR 0x80, CHR 0xA9],
     [CHR 0xE2, CHR 0x80, CHR 0xAF],
     [CHR 0xE2, CHR 0x81, CHR 0x9F],
     [CHR 0xE3, CHR 0x80, CHR 0x80]]"

definition space_len :: "string list \<Rightarrow> string \<Rightarrow> nat" where
  "space_len tbl s = (case filter (HasPrefix s) tbl of w # _ \<Rightarrow> length w | [] \<Rightarrow> 0)"

fun trim_front :: "string list \<Rightarrow> nat \<Rightarrow> string \<Rightarrow> string" where
  "trim_front tbl k [] = []"
| "trim_front tbl (Suc k) (c # cs) = trim_front tbl k cs"
| "trim_front tbl 0 (c # cs) =
     (let n = space_len tbl (c # cs) in
      if n = 0 then c # cs else trim_front tbl (n - 1) cs)"

definition TrimSpace :: "string \<Rightarrow> string" where
  "TrimSpace s =
     rev (trim_front (map rev space_runes) 0 (rev (trim_front space_runes 0 s)))"

subsection \<open>Definition starts and code boundaries\<close>

definition any_prefix :: "string \<Rightarrow> string list \<Rightarrow> bool" where
  "any_prefix line ps = list_ex (HasPrefix line) ps"

definition any_contains :: "string \<Rightarrow> string list \<Rightarrow> bool" where
  "any_contains line ps = list_ex (Contains line) ps"

definition isDefinitionStart :: "string \<Rightarrow> string \<Rightarrow> bool" where
  "isDefinitionStart line lang =
    (if lang = LangGo then
       any_prefix line [''func '', ''type '', ''const '', ''var '']
     else if lang = LangTypeScript \<or> lang = LangJavaScript then
       any_prefix line
         [''function '', ''class '', ''interface '', ''type '', ''const '', ''let '',
          ''export function '', ''export class '', ''export interface '', ''export type '',
          ''export const '', ''export default '']
     else if lang = LangPython then
       any_prefix line [''def '', ''class '', ''async def '']
     else if lang = LangRust then
       any_prefix line
         [''fn '', ''pub fn '', ''struct '', ''pub struct '', ''enum '', ''pub enum '',
          ''impl '', ''trait '', ''pub trait '']
     else if lang = LangJava then
       any_contains line [''class '', ''interface '', ''enum ''] \<or>
       (Contains line ''('' \<and> Contains line '')'' \<and>
        any_contains line [''public '', ''private '', ''protected '', ''static ''])
     else if lang = LangC \<or> lang = LangCPP then
       (Contains line ''('' \<and> \<not> HasSuffix line '';'' \<and>
        \<not> HasPrefix line ''//'' \<and> \<not> HasPrefix line ''#'') \<or>
       any_prefix line [''struct '', ''class '', ''namespace '']
     else if lang = LangCSharp then
       any_contains line [''class '', ''interface '', ''struct '', ''enum '', ''namespace '']
     else if lang = LangRuby then
       any_prefix line [''def '', ''class '', ''module '']
     else if lang = LangPHP then
       HasPrefix line ''function '' \<or> any_contains line [''class '', ''interface '', ''trait '']
     else if lang = LangSwift then
       any_prefix line
         [''func '', ''class '', ''struct '', ''enum '', ''protocol '', ''extension '']
     else if lang = LangKotlin then
       any_prefix line [''fun '', ''class '', ''interface '', ''object '', ''data class '']
     else if lang = LangScala then
       any_prefix line [''def '', ''class '', ''object '', ''trait '', ''case class '']
     else False)"

text \<open>The scan of \<open>findCodeBoundaries\<close>: \<open>i\<close> is the index of the line at the head,
  \<open>inMultilineComment\<close> the block-comment flag, \<open>bs\<close> the boundaries found so far.\<close>

fun boundary_scan :: "string \<Rightarrow> string list \<Rightarrow> nat \<Rightarrow> bool \<Rightarrow> nat list \<Rightarrow> nat list" where
  "boundary_scan lang [] i inMultilineComment bs = bs"
| "boundary_scan lang (line # ls) i inMultilineComment bs =
     (let trimmed = TrimSpace line in
      if trimmed = [] then boundary_scan lang ls (Suc i) inMultilineComment bs
      else
        let inComment = (if Contains trimmed ''/*'' then True else inMultilineComment) in
        if Contains trimmed ''*/'' then boundary_scan lang ls (Suc i) False bs
        else if inComment then boundary_scan lang ls (Suc i) inComment bs
        else if isDefinitionStart trimmed lang then boundary_scan lang ls (Suc i) inComment (bs @ [i])
        else boundary_scan lang ls (Suc i) inComment bs)"

definition findCodeBoundaries :: "string list \<Rightarrow> string \<Rightarrow> nat list" where
  "findCodeBoundaries lines lang =
     (let boundaries = boundary_scan lang lines 0 False [] in
      case boundaries of
        [] \<Rightarrow> [0]
      | b # _ \<Rightarrow> if b > 0 then 0 # boundaries else boundaries)"

subsection \<open>Text chunking\<close>

record Chunk =
  Content :: string
  StartLine :: int
  EndLine :: int
  StartChar :: int
  EndChar :: int
  ChunkIndex :: int

record ChunkOptions =
  ChunkSize :: int
  ChunkOverlap :: int
  MinChunkSize :: int

definition DefaultChunkOptions :: ChunkOptions where
  "DefaultChunkOptions = \<lparr>ChunkSize = 1500, ChunkOverlap = 200, MinChunkSize = 100\<rparr>"

text \<open>\<open>NewTextChunker\<close> replaces non-positive sizes (a negative overlap) by the defaults; the
  chunker is its options.\<close>

definition NewTextChunker :: "ChunkOptions \<Rightarrow> ChunkOptions" where
  "NewTextChunker opts =
     (let o1 = (if ChunkSize opts \<le> 0
                then opts\<lparr>ChunkSize := ChunkSize DefaultChunkOptions\<rparr> else opts);
          o2 = (if ChunkOverlap o1 < 0
                then o1\<lparr>ChunkOverlap := ChunkOverlap DefaultChunkOptions\<rparr> else o1);
          o3 = (if MinChunkSize o2 \<le> 0
                then o2\<lparr>MinChunkSize := MinChunkSize DefaultChunkOptions\<rparr> else o2)
      in o3)"

text \<open>\<open>calculateOverlap\<close> walks the lines from the last one backwards while the overlap
  collected so far is below \<open>ChunkOverlap\<close>.\<close>

fun overlap_scan :: "ChunkOptions \<Rightarrow> string list \<Rightarrow> string list \<Rightarrow> int \<Rightarrow> string list \<times> int" where
  "overlap_scan opts [] overlapLines overlapSize = (overlapLines, overlapSize)"
| "overlap_scan opts (l # back) overlapLines overlapSize =
     (if overlapSize < ChunkOverlap opts
      then overlap_scan opts back (l # overlapLines)
             (overlapSize + (int (RuneCountInString l) + 1))
      else (overlapLines, overlapSize))"

definition calculateOverlap :: "ChunkOptions \<Rightarrow> string list \<Rightarrow> string list \<times> int" where
  "calculateOverlap opts lines =
     (if ChunkOverlap opts \<le> 0 \<or> length lines = 0 then ([], 0)
      else overlap_scan opts (rev lines) [] 0)"

text \<open>The local variables of \<open>chunkText\<close>.\<close>

record text_state =
  out_chunks :: "Chunk list"
  chunkStart :: int
  chunkStartChar :: int
  currentSize :: int
  currentLines :: "string list"

definition buffer_chunk :: "text_state \<Rightarrow> string \<Rightarrow> Chunk" where
  "buffer_chunk st content =
     \<lparr>Content = content,
      StartLine = chunkStart st + 1,
      EndLine = chunkStart st + int (length (currentLines st)),
      StartChar = chunkStartChar st,
      EndChar = chunkStartChar st + currentSize st - 1,
      ChunkIndex = int (length (out_chunks st))\<rparr>"

text \<open>One iteration of the loop over the lines.\<close>

definition text_step :: "ChunkOptions \<Rightarrow> text_state \<Rightarrow> nat \<Rightarrow> string \<Rightarrow> text_state" where
  "text_step opts st lineNum line =
     (let lineLen = int (RuneCountInString line) + 1;
          st1 =
            (if currentSize st + lineLen > ChunkSize opts \<and> length (currentLines st) > 0
             then
               (case calculateOverlap opts (currentLines st) of
                  (overlapLines, overlapSize) \<Rightarrow>
                    \<lparr>out_chunks = out_chunks st @ [buffer_chunk st (JoinLines (currentLines st))],
                     chunkStart = int lineNum - int (length overlapLines),
                     chunkStartChar = chunkStartChar st + currentSize st - overlapSize,
                     currentSize = overlapSize,
                     currentLines = overlapLines\<rparr>)
             else st)
      in st1\<lparr>currentLines := currentLines st1 @ [line],
              currentSize := currentSize st1 + lineLen\<rparr>)"

fun text_loop :: "ChunkOptions \<Rightarrow> text_state \<Rightarrow> nat \<Rightarrow> string list \<Rightarrow> text_state" where
  "text_loop opts st lineNum [] = st"
| "text_loop opts st lineNum (line # ls) =
     text_loop opts (text_step opts st lineNum line) (Suc lineNum) ls"

definition text_init :: text_state where
  "text_init =
     \<lparr>out_chunks = [], chunkStart = 0, chunkStartChar = 0, currentSize = 0, currentLines = []\<rparr>"

text \<open>The final buffer: emitted as a chunk when it is the first one or long enough, merged
  into the last chunk otherwise.\<close>

definition text_final :: "ChunkOptions \<Rightarrow> text_state \<Rightarrow> Chunk list" where
  "text_final opts st =
     (if length (currentLines st) > 0 then
        (let content = JoinLines (currentLines st) in
         if length (out_chunks st) = 0 \<or> int (RuneCountInString content) \<ge> MinChunkSize opts
         then out_chunks st @ [buffer_chunk st content]
         else if length (out_chunks st) > 0 then
           (let prev = last (out_chunks st) in
            (out_chunks st)[length (out_chunks st) - 1 :=
               prev\<lparr>Content := Content prev @ [CHR 0x0A] @ content,
                     EndLine := chunkStart st + int (length (currentLines st)),
                     EndChar := chunkStartChar st + currentSize st - 1\<rparr>])
         else out_chunks st)
      else out_chunks st)"

definition chunkText :: "ChunkOptions \<Rightarrow> string \<Rightarrow> Chunk list" where
  "chunkText opts content = text_final opts (text_loop opts text_init 0 (SplitLines content))"

text \<open>The last emitted chunk ends no later than the buffer, in lines and in characters.\<close>

definition behind :: "text_state \<Rightarrow> bool" where
  "behind st =
     (out_chunks st = [] \<or>
      (EndLine (last (out_chunks st)) \<le> chunkStart st + int (length (currentLines st)) \<and>
       EndChar (last (out_chunks st)) + 1 \<le> chunkStartChar st + currentSize st))"

subsection \<open>Code-aware chunking\<close>

text \<open>The sub-chunks of an over-long block are shifted to the block's origin and renumbered
  as they are appended.\<close>

fun append_subchunks :: "Chunk list \<Rightarrow> nat \<Rightarrow> int \<Rightarrow> Chunk list \<Rightarrow> Chunk list" where
  "append_subchunks [] boundary charOffset cs = cs"
| "append_subchunks (sub # subs) boundary charOffset cs =
     append_subchunks subs boundary charOffset
       (cs @ [sub\<lparr>StartLine := StartLine sub + int boundary,
                   EndLine := EndLine sub + int boundary,
                   StartChar := StartChar sub + charOffset,
                   EndChar := EndChar sub + charOffset,
                   ChunkIndex := int (length cs)\<rparr>])"

definition block_chars :: "string list \<Rightarrow> int" where
  "block_chars ls = sum_list (map (\<lambda>l. int (RuneCountInString l) + 1) ls)"

text \<open>The loop of \<open>chunkCode\<close> over the boundaries, the head of the list being the current
  one.  A Go slice expression \<open>lines[boundary:endLine]\<close> is in range for the boundaries that
  \<open>findCodeBoundaries\<close> returns (increasing line indices).  The bound \<open>ChunkSize*2\<close> is a
  product of Go \<open>int\<close>s.\<close>

fun code_loop :: "ChunkOptions \<Rightarrow> string list \<Rightarrow> nat list \<Rightarrow> Chunk list \<Rightarrow> int \<Rightarrow> Chunk list" where
  "code_loop opts lines [] cs charOffset = cs"
| "code_loop opts lines (boundary # rest) cs charOffset =
     (let endLine = (case rest of [] \<Rightarrow> length lines | b # _ \<Rightarrow> b);
          chunkLines = take (endLine - boundary) (drop boundary lines);
          chunkContent = JoinLines chunkLines;
          chunkLen = int (RuneCountInString chunkContent);
          cs1 =
            (if chunkLen > wrap64 (ChunkSize opts * 2)
             then append_subchunks (chunkText opts chunkContent) boundary charOffset cs
             else if chunkLen \<ge> MinChunkSize opts
             then cs @ [\<lparr>Content = chunkContent,
                          StartLine = int boundary + 1,
                          EndLine = int endLine,
                          StartChar = charOffset,
                          EndChar = charOffset + chunkLen,
                          ChunkIndex = int (length cs)\<rparr>]
             else cs)
      in code_loop opts lines rest cs1 (charOffset + block_chars chunkLines))"

definition chunkCode :: "ChunkOptions \<Rightarrow> string \<Rightarrow> string \<Rightarrow> Chunk list" where
  "chunkCode opts content lang =
     (let lines = SplitLines content;
          boundaries = findCodeBoundaries lines lang
      in if length boundaries = 0 then chunkText opts content
         else
           (let cs = code_loop opts lines boundaries [] 0 in
            if length cs = 0 then chunkText opts content else cs))"

text \<open>The chunks' \<open>ChunkIndex\<close> fields are their 0-based positions in the list.\<close>

definition indexed :: "Chunk list \<Rightarrow> bool" where
  "indexed cs = (map ChunkIndex cs = map int [0..<length cs])"

text \<open>\<open>TextChunker.Chunk\<close>.\<close>

definition TextChunker_Chunk :: "ChunkOptions \<Rightarrow> string \<Rightarrow> string \<Rightarrow> Chunk list" where
  "TextChunker_Chunk opts content filename =
     (if length content = 0 then []
      else
        let lang = DetectLanguage filename in
        if SupportsCodeChunking lang then chunkCode opts content lang
        else chunkText opts content)"

section \<open>Index store (package store)\<close>

subsection \<open>Records and tables\<close>

text \<open>Go's \<open>error\<close> values carry a message; \<open>time.Time\<close> values are seconds on some clock;
  a \<open>[]float32\<close> is a list of reals (rounding is outside the model).\<close>

datatype error = Err string

type_synonym timestamp = nat

type_synonym embedding = "real list"

record StoreRecord =
  sr_ID :: int
  sr_Name :: string
  sr_RootPath :: string
  sr_EmbeddingProvider :: string
  sr_EmbeddingModel :: string
  sr_EmbeddingDimensions :: int
  sr_CreatedAt :: timestamp
  sr_UpdatedAt :: timestamp

record FileRecord =
  fr_ID :: int
  fr_StoreID :: int
  fr_ExternalID :: string
  fr_Path :: string
  fr_RelativePath :: string
  fr_Hash :: string
  fr_FileSize :: int
  fr_IndexedAt :: timestamp

record ChunkRecord =
  cr_ID :: int
  cr_FileID :: int
  cr_ChunkIndex :: int
  cr_Content :: string
  cr_StartLine :: int
  cr_EndLine :: int

text \<open>\<open>store.Chunk\<close> and \<open>store.FileInput\<close>, the inputs of an upsert.\<close>

record StoreChunk =
  sc_Content :: string
  sc_StartLine :: int
  sc_EndLine :: int
  sc_ChunkIndex :: int

record FileInput =
  in_ExternalID :: string
  in_Path :: string
  in_RelativePath :: string
  in_Hash :: string
  in_FileSize :: int

record SearchResult =
  res_Chunk :: ChunkRecord
  res_File :: FileRecord
  Distance :: real
  Score :: real

record StoreStats =
  ss_StoreID :: int
  ss_StoreName :: string
  ss_FileCount :: int
  ss_ChunkCount :: int
  ss_TotalSize :: int

text \<open>
  The database of schema.go: the tables \<open>stores\<close>, \<open>files\<close> and \<open>chunks\<close>, whose integer
  keys are \<open>AUTOINCREMENT\<close> (the \<open>seq\<close> fields hold the largest key handed out so far, as
  SQLite's \<open>sqlite_sequence\<close> does), and the \<open>vec0\<close> table \<open>chunk_vectors\<close> keyed by chunk id,
  which exists once \<open>createVectorTable\<close> has run and then has a fixed number of dimensions.
\<close>

record database =
  tbl_stores :: "StoreRecord list"
  tbl_files :: "FileRecord list"
  tbl_chunks :: "ChunkRecord list"
  tbl_chunk_vectors :: "(int \<times> embedding) list"
  seq_stores :: int
  seq_files :: int
  seq_chunks :: int
  vec_dimensions :: "nat option"

text \<open>The SQL statements of the modelled operations.  Any of them can fail for a reason
  outside the program (I/O error, locked database); the oracle \<open>faults\<close> of an operation
  says which ones do.\<close>

datatype stmt =
    TxBegin | TxCommit
  | SelectFileID | DeleteOldVectors | DeleteOldChunks | UpdateFileRow | InsertFileRow
  | InsertChunk nat | InsertVector nat
  | SelectStore | CheckVectorTable | CreateVectorTable | InsertStore | UpdateTimestamp
  | SelectFileRecord | DeleteFileVectors | DeleteFileRow
  | KnnQuery
  | SelectStoreName | CountFiles | CountChunks
  | DeleteStoreVectors | DeleteStoreFiles

type_synonym faults = "stmt \<Rightarrow> bool"

definition file_ids :: "database \<Rightarrow> int list" where
  "file_ids db = map fr_ID (tbl_files db)"

definition chunk_ids_of_file :: "database \<Rightarrow> int \<Rightarrow> int list" where
  "chunk_ids_of_file db fid = map cr_ID (filter (\<lambda>c. cr_FileID c = fid) (tbl_chunks db))"

text \<open>\<open>SELECT id FROM files WHERE store_id = ? AND external_id = ?\<close>.\<close>

definition select_file :: "database \<Rightarrow> int \<Rightarrow> string \<Rightarrow> FileRecord list" where
  "select_file db storeID externalID =
     filter (\<lambda>f. fr_StoreID f = storeID \<and> fr_ExternalID f = externalID) (tbl_files db)"

subsection \<open>Transactions\<close>

text \<open>A transaction of \<open>database/sql\<close> on the store's SQLite connection.  The statements of
  a transaction are written into the database, and the content from before \<open>Begin\<close> is kept
  aside in the rollback journal.  \<open>Rollback\<close> puts that content back; once the transaction
  has ended it does nothing (\<open>ErrTxDone\<close>).  \<open>Commit\<close> drops the journal; a commit that
  fails leaves nothing of the transaction behind.\<close>

record Tx =
  tx_db :: database
  tx_journal :: "database option"

definition Begin :: "database \<Rightarrow> Tx" where
  "Begin db = \<lparr>tx_db = db, tx_journal = Some db\<rparr>"

definition Exec :: "(database \<Rightarrow> database) \<Rightarrow> Tx \<Rightarrow> Tx" where
  "Exec write tx = tx\<lparr>tx_db := write (tx_db tx)\<rparr>"

definition Rollback :: "Tx \<Rightarrow> Tx" where
  "Rollback tx =
     (case tx_journal tx of
        None \<Rightarrow> tx
      | Some before \<Rightarrow> \<lparr>tx_db = before, tx_journal = None\<rparr>)"

definition Commit :: "faults \<Rightarrow> Tx \<Rightarrow> error option \<times> Tx" where
  "Commit faults tx =
     (if faults TxCommit then (Some (Err ''commit failed''), Rollback tx)
      else (None, tx\<lparr>tx_journal := None\<rparr>))"

subsection \<open>UpsertFile\<close>

text \<open>The loop that inserts the chunks and their vectors; \<open>i\<close> is the loop index.  The
  inserts fail on an injected fault and on a violated constraint of the schema: the foreign
  key \<open>chunks.file_id\<close>, \<open>UNIQUE(file_id, chunk_index)\<close>, the primary key of \<open>chunk_vectors\<close>
  and the width of the vector column.  An error return leaves the transaction as the
  statements before it have made it: when the vector of a chunk is refused, the row of the
  chunk has been written.\<close>

fun insert_chunks ::
  "faults \<Rightarrow> Tx \<Rightarrow> int \<Rightarrow> nat \<Rightarrow> (StoreChunk \<times> embedding) list \<Rightarrow> error option \<times> Tx" where
  "insert_chunks faults tx fileID i [] = (None, tx)"
| "insert_chunks faults tx fileID i ((chunk, emb) # rest) =
     (if faults (InsertChunk i) \<or> fileID \<notin> set (file_ids (tx_db tx)) \<or>
         list_ex (\<lambda>c. cr_FileID c = fileID \<and> cr_ChunkIndex c = sc_ChunkIndex chunk)
           (tbl_chunks (tx_db tx))
      then (Some (Err ''failed to insert chunk''), tx)
      else
        let chunkID = seq_chunks (tx_db tx) + 1;
            tx1 = Exec (\<lambda>db. db\<lparr>tbl_chunks := tbl_chunks db @
                        [\<lparr>cr_ID = chunkID, cr_FileID = fileID,
                          cr_ChunkIndex = sc_ChunkIndex chunk, cr_Content = sc_Content chunk,
                          cr_StartLine = sc_StartLine chunk, cr_EndLine = sc_EndLine chunk\<rparr>],
                     seq_chunks := chunkID\<rparr>) tx
        in if faults (InsertVector i) \<or> vec_dimensions (tx_db tx1) \<noteq> Some (length emb) \<or>
              chunkID \<in> set (map fst (tbl_chunk_vectors (tx_db tx1)))
           then (Some (Err ''failed to insert vector for chunk''), tx1)
           else insert_chunks faults
                  (Exec (\<lambda>db. db\<lparr>tbl_chunk_vectors := tbl_chunk_vectors db @ [(chunkID, emb)]\<rparr>)
                     tx1)
                  fileID (Suc i) rest)"

text \<open>The statements between \<open>Begin\<close> and \<open>Commit\<close>, each run through the transaction \<open>tx\<close>.
  \<open>Scan\<close> leaves \<open>existingFileID\<close> at 0 when no row is found.\<close>

definition upsert_body ::
  "faults \<Rightarrow> timestamp \<Rightarrow> Tx \<Rightarrow> int \<Rightarrow> FileInput \<Rightarrow> (StoreChunk \<times> embedding) list
     \<Rightarrow> error option \<times> Tx" where
  "upsert_body faults now tx storeID file rows =
     (if faults SelectFileID then (Some (Err ''failed to check existing file''), tx)
      else
        let existingFileID =
              (case select_file (tx_db tx) storeID (in_ExternalID file) of
                 [] \<Rightarrow> 0
               | f # _ \<Rightarrow> fr_ID f)
        in
        if existingFileID > 0 then
          (if faults DeleteOldVectors \<or> vec_dimensions (tx_db tx) = None
           then (Some (Err ''failed to delete old vectors''), tx)
           else
             let tx1 = Exec (\<lambda>db. db\<lparr>tbl_chunk_vectors :=
                           filter (\<lambda>v. fst v \<notin> set (chunk_ids_of_file db existingFileID))
                             (tbl_chunk_vectors db)\<rparr>) tx
             in
             if faults DeleteOldChunks then (Some (Err ''failed to delete old chunks''), tx1)
             else
               let tx2 = Exec (\<lambda>db. db\<lparr>tbl_chunks :=
                              filter (\<lambda>c. cr_FileID c \<noteq> existingFileID) (tbl_chunks db)\<rparr>) tx1
               in
               if faults UpdateFileRow then (Some (Err ''failed to update file''), tx2)
               else
                 let tx3 = Exec (\<lambda>db. db\<lparr>tbl_files :=
                                map (\<lambda>f. if fr_ID f = existingFileID
                                          then f\<lparr>fr_Path := in_Path file,
                                                 fr_RelativePath := in_RelativePath file,
                                                 fr_Hash := in_Hash file,
                                                 fr_FileSize := in_FileSize file,
                                                 fr_IndexedAt := now\<rparr>
                                          else f)
                                  (tbl_files db)\<rparr>) tx2
                 in insert_chunks faults tx3 existingFileID 0 rows)
        else
          (if faults InsertFileRow \<or> storeID \<notin> set (map sr_ID (tbl_stores (tx_db tx))) \<or>
              select_file (tx_db tx) storeID (in_ExternalID file) \<noteq> []
           then (Some (Err ''failed to insert file''), tx)
           else
             let newID = seq_files (tx_db tx) + 1;
                 tx1 = Exec (\<lambda>db. db\<lparr>tbl_files := tbl_files db @
                             [\<lparr>fr_ID = newID, fr_StoreID = storeID,
                               fr_ExternalID = in_ExternalID file, fr_Path = in_Path file,
                               fr_RelativePath = in_RelativePath file, fr_Hash = in_Hash file,
                               fr_FileSize = in_FileSize file, fr_IndexedAt = now\<rparr>],
                          seq_files := newID\<rparr>) tx
             in insert_chunks faults tx1 newID 0 rows))"

text \<open>\<open>SQLiteStore.UpsertFile\<close>.  After the length check the loop reads \<open>embeddings[i]\<close> in
  range, so it runs over the pairs.  \<open>defer tx.Rollback()\<close> runs at every return after
  \<open>Begin\<close>; the database that the call leaves is the one of the connection after it.\<close>

definition SQLiteStore_UpsertFile ::
  "faults \<Rightarrow> timestamp \<Rightarrow> database \<Rightarrow> int \<Rightarrow> FileInput \<Rightarrow> StoreChunk list \<Rightarrow> embedding list
     \<Rightarrow> error option \<times> database" where
  "SQLiteStore_UpsertFile faults now db storeID file chunks embeddings =
     (if length chunks \<noteq> length embeddings
      then (Some (Err ''chunks and embeddings count mismatch''), db)
      else if faults TxBegin then (Some (Err ''failed to begin transaction''), db)
      else
        (case upsert_body faults now (Begin db) storeID file (zip chunks embeddings) of
           (Some e, tx) \<Rightarrow> (Some e, tx_db (Rollback tx))
         | (None, tx) \<Rightarrow>
             (case Commit faults tx of (err, tx') \<Rightarrow> (err, tx_db (Rollback tx')))))"

text \<open>A chunk row without its keys, to compare it with the chunk that was provided.\<close>

definition chunk_payload :: "ChunkRecord \<Rightarrow> StoreChunk" where
  "chunk_payload c =
     \<lparr>sc_Content = cr_Content c, sc_StartLine = cr_StartLine c, sc_EndLine = cr_EndLine c,
      sc_ChunkIndex = cr_ChunkIndex c\<rparr>"

text \<open>The integrity that SQLite maintains for a database only this program writes: keys come
  from the sequences, which count up from 0, and are unique, file keys are positive, \<open>UNIQUE(store_id, external_id)\<close>
  holds of the files, and every chunk belongs to a file.\<close>

definition db_ok :: "database \<Rightarrow> bool" where
  "db_ok db =
     (0 \<le> seq_files db \<and>
      list_all (\<lambda>f. 0 < fr_ID f \<and> fr_ID f \<le> seq_files db) (tbl_files db) \<and>
      distinct (map fr_ID (tbl_files db)) \<and>
      distinct (map (\<lambda>f. (fr_StoreID f, fr_ExternalID f)) (tbl_files db)) \<and>
      list_all (\<lambda>c. cr_ID c \<le> seq_chunks db \<and> cr_FileID c \<in> set (map fr_ID (tbl_files db)))
        (tbl_chunks db) \<and>
      distinct (map cr_ID (tbl_chunks db)))"

text \<open>The outcome of a committed upsert of \<open>file\<close> into the store \<open>storeID\<close>, read off the
  tables of the database \<open>db\<close> before and \<open>db'\<close> after it, not through the queries of the
  operation.  The old chunks are the rows of \<open>db\<close> whose file has this store and external id.

  \<^item> In \<open>db'\<close> exactly one file row has this store and external id; it carries the input's
    path, hash and size and the time of the call.
  \<^item> The chunk rows of that file in \<open>db'\<close> are the provided chunks in order, and under the
    id of each there is exactly one vector, the provided embedding at the same position.
  \<^item> No id of an old chunk is left in the chunk table or in the vector table.
  \<^item> Nothing else has changed: the stores, the other file rows, the chunks of other files
    and the vectors under other ids are those of \<open>db\<close>.\<close>

definition upserted ::
  "database \<Rightarrow> database \<Rightarrow> timestamp \<Rightarrow> int \<Rightarrow> FileInput \<Rightarrow> StoreChunk list \<Rightarrow> embedding list
     \<Rightarrow> bool" where
  "upserted db db' now storeID file chunks embeddings =
     (case filter (\<lambda>f. fr_StoreID f = storeID \<and> fr_ExternalID f = in_ExternalID file)
             (tbl_files db') of
        [f] \<Rightarrow>
          (let old = filter (\<lambda>c. list_ex (\<lambda>g. fr_ID g = cr_FileID c \<and> fr_StoreID g = storeID \<and>
                                              fr_ExternalID g = in_ExternalID file)
                                   (tbl_files db))
                       (tbl_chunks db);
               new = filter (\<lambda>c. cr_FileID c = fr_ID f) (tbl_chunks db')
           in
             fr_Path f = in_Path file \<and> fr_RelativePath f = in_RelativePath file \<and>
             fr_Hash f = in_Hash file \<and> fr_FileSize f = in_FileSize file \<and>
             fr_IndexedAt f = now \<and>
             map chunk_payload new = chunks \<and>
             map (\<lambda>c. map snd (filter (\<lambda>v. fst v = cr_ID c) (tbl_chunk_vectors db'))) new
               = map (\<lambda>e. [e]) embeddings \<and>
             list_all (\<lambda>c. cr_ID c \<notin> set (map cr_ID (tbl_chunks db')) \<and>
                            cr_ID c \<notin> set (map fst (tbl_chunk_vectors db'))) old \<and>
             tbl_stores db' = tbl_stores db \<and>
             filter (\<lambda>g. \<not> (fr_StoreID g = storeID \<and> fr_ExternalID g = in_ExternalID file))
                 (tbl_files db')
               = filter (\<lambda>g. \<not> (fr_StoreID g = storeID \<and> fr_ExternalID g = in_ExternalID file))
                   (tbl_files db) \<and>
             filter (\<lambda>c. cr_FileID c \<noteq> fr_ID f) (tbl_chunks db')
               = filter (\<lambda>c. c \<notin> set old) (tbl_chunks db) \<and>
             filter (\<lambda>v. fst v \<notin> set (map cr_ID new)) (tbl_chunk_vectors db')
               = filter (\<lambda>v. fst v \<notin> set (map cr_ID old)) (tbl_chunk_vectors db))
      | _ \<Rightarrow> False)"

subsection \<open>Search\<close>

text \<open>The \<open>k\<close> requested from the vector index.\<close>

definition kForVec :: "int \<Rightarrow> int" where
  "kForVec topK = (let k = wrap64 (topK * 10) in if k > 1000 then 1000 else k)"

text \<open>The metric of the vector table (\<open>distance_metric=cosine\<close> in schema.go): one minus the
  dot product over the product of the norms.\<close>

definition dot :: "embedding \<Rightarrow> embedding \<Rightarrow> real" where
  "dot a b = sum_list (map (\<lambda>p. fst p * snd p) (zip a b))"

definition vec_distance_cosine :: "embedding \<Rightarrow> embedding \<Rightarrow> real" where
  "vec_distance_cosine a b = 1 - dot a b / (sqrt (dot a a) * sqrt (dot b b))"

text \<open>The \<open>MATCH ... AND k = ?\<close> constraint: the \<open>k\<close> rows of \<open>chunk_vectors\<close> nearest to the
  query, over all stores, each with its distance.\<close>

definition knn :: "database \<Rightarrow> embedding \<Rightarrow> nat \<Rightarrow> (int \<times> real) list" where
  "knn db query k =
     take k (sort_key snd
       (map (\<lambda>v. (fst v, vec_distance_cosine query (snd v))) (tbl_chunk_vectors db)))"

text \<open>The joins with \<open>chunks\<close> and \<open>files\<close> and the filter on the store.\<close>

definition join_rows ::
  "database \<Rightarrow> int \<Rightarrow> (int \<times> real) list \<Rightarrow> (ChunkRecord \<times> FileRecord \<times> real) list" where
  "join_rows db storeID near =
     concat (map (\<lambda>cv.
       concat (map (\<lambda>c.
         map (\<lambda>f. (c, f, snd cv))
           (filter (\<lambda>f. fr_ID f = cr_FileID c \<and> fr_StoreID f = storeID) (tbl_files db)))
         (filter (\<lambda>c. cr_ID c = fst cv) (tbl_chunks db))))
       near)"

definition scan_result :: "ChunkRecord \<times> FileRecord \<times> real \<Rightarrow> SearchResult" where
  "scan_result row =
     \<lparr>res_Chunk = fst row, res_File = fst (snd row),
      Distance = snd (snd row), Score = 1 - snd (snd row)\<rparr>"

text \<open>\<open>SQLiteStore.Search\<close>.  The query fails on an injected fault, when the vector table is
  missing or the query vector has another width, and when the \<open>k\<close> handed to the vector
  index is negative (the index refuses it).  A negative \<open>LIMIT\<close> is no limit in SQLite.\<close>

definition SQLiteStore_Search ::
  "faults \<Rightarrow> database \<Rightarrow> int \<Rightarrow> embedding \<Rightarrow> int \<Rightarrow> error + SearchResult list" where
  "SQLiteStore_Search faults db storeID queryEmbedding topK =
     (if faults KnnQuery \<or> vec_dimensions db \<noteq> Some (length queryEmbedding) \<or> kForVec topK < 0
      then Inl (Err ''failed to search'')
      else
        let near = knn db queryEmbedding (nat (kForVec topK));
            ordered = sort_key (\<lambda>row. snd (snd row)) (join_rows db storeID near);
            limited = (if topK < 0 then ordered else take (nat topK) ordered)
        in Inr (map scan_result limited))"

subsection \<open>The other operations of SQLiteStore\<close>

text \<open>\<open>GetStore\<close>: no row is \<open>(nil, nil)\<close>, the value \<open>Inr None\<close>.\<close>

definition SQLiteStore_GetStore :: "faults \<Rightarrow> database \<Rightarrow> string \<Rightarrow> error + StoreRecord option" where
  "SQLiteStore_GetStore faults db name =
     (if faults SelectStore then Inl (Err ''failed to get store'')
      else Inr (case filter (\<lambda>r. sr_Name r = name) (tbl_stores db) of
                  [] \<Rightarrow> None
                | r # _ \<Rightarrow> Some r))"

text \<open>\<open>CreateStore\<close> runs \<open>ensureVectorTable\<close> and the insert outside any transaction: a
  vector table created by the first step stays when the insert fails.  The insert fails on
  a name already present (\<open>name TEXT UNIQUE\<close>); the vector table needs a positive width.\<close>

definition ensureVectorTable :: "faults \<Rightarrow> database \<Rightarrow> int \<Rightarrow> error option \<times> database" where
  "ensureVectorTable faults db dimensions =
     (if faults CheckVectorTable then (Some (Err ''failed to check vector table''), db)
      else if vec_dimensions db = None then
        (if faults CreateVectorTable \<or> dimensions \<le> 0
         then (Some (Err ''failed to create vector table''), db)
         else (None, db\<lparr>vec_dimensions := Some (nat dimensions)\<rparr>))
      else (None, db))"

definition SQLiteStore_CreateStore ::
  "faults \<Rightarrow> timestamp \<Rightarrow> database \<Rightarrow> string \<Rightarrow> string \<Rightarrow> string \<Rightarrow> string \<Rightarrow> int
     \<Rightarrow> (error + StoreRecord) \<times> database" where
  "SQLiteStore_CreateStore faults now db name rootPath provider model dimensions =
     (case ensureVectorTable faults db dimensions of
        (Some e, db1) \<Rightarrow> (Inl (Err ''failed to ensure vector table''), db1)
      | (None, db1) \<Rightarrow>
          if faults InsertStore \<or> name \<in> set (map sr_Name (tbl_stores db1))
          then (Inl (Err ''failed to create store''), db1)
          else
            let newID = seq_stores db1 + 1;
                record = \<lparr>sr_ID = newID, sr_Name = name, sr_RootPath = rootPath,
                          sr_EmbeddingProvider = provider, sr_EmbeddingModel = model,
                          sr_EmbeddingDimensions = dimensions,
                          sr_CreatedAt = now, sr_UpdatedAt = now\<rparr>
            in (Inr record,
                db1\<lparr>tbl_stores := tbl_stores db1 @ [record], seq_stores := newID\<rparr>))"

definition SQLiteStore_UpdateStoreTimestamp ::
  "faults \<Rightarrow> timestamp \<Rightarrow> database \<Rightarrow> int \<Rightarrow> error option \<times> database" where
  "SQLiteStore_UpdateStoreTimestamp faults now db storeID =
     (if faults UpdateTimestamp then (Some (Err ''update failed''), db)
      else (None,
            db\<lparr>tbl_stores :=
                 map (\<lambda>r. if sr_ID r = storeID then r\<lparr>sr_UpdatedAt := now\<rparr> else r) (tbl_stores db)\<rparr>))"

definition SQLiteStore_GetFileByExternalID ::
  "faults \<Rightarrow> database \<Rightarrow> int \<Rightarrow> string \<Rightarrow> error + FileRecord option" where
  "SQLiteStore_GetFileByExternalID faults db storeID externalID =
     (if faults SelectFileRecord then Inl (Err ''failed to get file'')
      else Inr (case select_file db storeID externalID of
                  [] \<Rightarrow> None
                | f # _ \<Rightarrow> Some f))"

text \<open>\<open>DeleteFile\<close>: two statements outside a transaction; deleting the file row cascades to
  its chunks.\<close>

definition SQLiteStore_DeleteFile :: "faults \<Rightarrow> database \<Rightarrow> int \<Rightarrow> string \<Rightarrow> error option \<times> database" where
  "SQLiteStore_DeleteFile faults db storeID externalID =
     (if faults SelectFileID then (Some (Err ''failed to get file ID''), db)
      else
        (case select_file db storeID externalID of
           [] \<Rightarrow> (None, db)
         | f # _ \<Rightarrow>
             let fileID = fr_ID f in
             if faults DeleteFileVectors \<or> vec_dimensions db = None
             then (Some (Err ''failed to delete vectors''), db)
             else
               let db1 = db\<lparr>tbl_chunk_vectors :=
                             filter (\<lambda>v. fst v \<notin> set (chunk_ids_of_file db fileID))
                               (tbl_chunk_vectors db)\<rparr>
               in
               if faults DeleteFileRow then (Some (Err ''failed to delete file''), db1)
               else (None,
                     db1\<lparr>tbl_files := filter (\<lambda>g. fr_ID g \<noteq> fileID) (tbl_files db1),
                          tbl_chunks := filter (\<lambda>c. cr_FileID c \<noteq> fileID) (tbl_chunks db1)\<rparr>)))"

definition files_of_store :: "database \<Rightarrow> int \<Rightarrow> FileRecord list" where
  "files_of_store db storeID = filter (\<lambda>f. fr_StoreID f = storeID) (tbl_files db)"

definition chunks_of_store :: "database \<Rightarrow> int \<Rightarrow> ChunkRecord list" where
  "chunks_of_store db storeID =
     concat (map (\<lambda>c. map (\<lambda>f. c)
                         (filter (\<lambda>f. fr_ID f = cr_FileID c \<and> fr_StoreID f = storeID) (tbl_files db)))
               (tbl_chunks db))"

definition SQLiteStore_GetStats :: "faults \<Rightarrow> database \<Rightarrow> int \<Rightarrow> error + StoreStats" where
  "SQLiteStore_GetStats faults db storeID =
     (if faults SelectStoreName then Inl (Err ''failed to get store name'')
      else
        (case filter (\<lambda>r. sr_ID r = storeID) (tbl_stores db) of
           [] \<Rightarrow> Inl (Err ''failed to get store name'')
         | r # _ \<Rightarrow>
             if faults CountFiles then Inl (Err ''failed to get file stats'')
             else if faults CountChunks then Inl (Err ''failed to get chunk count'')
             else Inr \<lparr>ss_StoreID = storeID, ss_StoreName = sr_Name r,
                       ss_FileCount = int (length (files_of_store db storeID)),
                       ss_ChunkCount = int (length (chunks_of_store db storeID)),
                       ss_TotalSize = sum_list (map fr_FileSize (files_of_store db storeID))\<rparr>))"

definition SQLiteStore_ClearStore :: "faults \<Rightarrow> database \<Rightarrow> int \<Rightarrow> error option \<times> database" where
  "SQLiteStore_ClearStore faults db storeID =
     (if faults DeleteStoreVectors \<or> vec_dimensions db = None
      then (Some (Err ''failed to delete vectors''), db)
      else
        let db1 = db\<lparr>tbl_chunk_vectors :=
                      filter (\<lambda>v. fst v \<notin> set (map cr_ID (chunks_of_store db storeID)))
                        (tbl_chunk_vectors db)\<rparr>
        in
        if faults DeleteStoreFiles then (Some (Err ''failed to delete files''), db1)
        else (None,
              db1\<lparr>tbl_files := filter (\<lambda>f. fr_StoreID f \<noteq> storeID) (tbl_files db1),
                   tbl_chunks :=
                     filter (\<lambda>c. cr_FileID c \<notin> set (map fr_ID (files_of_store db1 storeID)))
                       (tbl_chunks db1)\<rparr>))"

subsection \<open>The Store interface\<close>

text \<open>The methods of the interface \<open>store.Store\<close> that the indexer and the watcher call, over
  the state \<open>'s\<close> of an implementation.  A Go result \<open>(*T, error)\<close> is \<open>Inl\<close> the error or
  \<open>Inr\<close> the pointer, \<open>None\<close> for \<open>nil\<close>.\<close>

record 's Store =
  GetStore :: "'s \<Rightarrow> string \<Rightarrow> error + StoreRecord option"
  CreateStore :: "'s \<Rightarrow> string \<Rightarrow> string \<Rightarrow> string \<Rightarrow> string \<Rightarrow> int \<Rightarrow> (error + StoreRecord) \<times> 's"
  UpdateStoreTimestamp :: "'s \<Rightarrow> int \<Rightarrow> error option \<times> 's"
  UpsertFile :: "'s \<Rightarrow> int \<Rightarrow> FileInput \<Rightarrow> StoreChunk list \<Rightarrow> embedding list \<Rightarrow> error option \<times> 's"
  DeleteFile :: "'s \<Rightarrow> int \<Rightarrow> string \<Rightarrow> error option \<times> 's"
  GetFileByExternalID :: "'s \<Rightarrow> int \<Rightarrow> string \<Rightarrow> error + FileRecord option"
  GetStats :: "'s \<Rightarrow> int \<Rightarrow> error + StoreStats"
  ClearStore :: "'s \<Rightarrow> int \<Rightarrow> error option \<times> 's"

text \<open>\<open>SQLiteStore\<close> implements it, for an oracle of faults and a clock reading.\<close>

definition SQLiteStore :: "faults \<Rightarrow> timestamp \<Rightarrow> database Store" where
  "SQLiteStore faults now =
     \<lparr>GetStore = SQLiteStore_GetStore faults,
      CreateStore = SQLiteStore_CreateStore faults now,
      UpdateStoreTimestamp = SQLiteStore_UpdateStoreTimestamp faults now,
      UpsertFile = SQLiteStore_UpsertFile faults now,
      DeleteFile = SQLiteStore_DeleteFile faults,
      GetFileByExternalID = SQLiteStore_GetFileByExternalID faults,
      GetStats = SQLiteStore_GetStats faults,
      ClearStore = SQLiteStore_ClearStore faults\<rparr>"

section \<open>The file system seen by the watcher and the indexer\<close>

text \<open>\<open>os.Stat\<close> either fails or reports whether the path is a directory, its size and
  its modification time.\<close>

record stat_info =
  st_IsDir :: bool
  st_Size :: int
  st_ModTime :: nat

type_synonym filesystem = "string \<Rightarrow> stat_info option"

section \<open>Indexer (package indexer)\<close>

subsection \<open>What the indexer works with\<close>

text \<open>A Go call returns or panics.\<close>

datatype 'a go = Returns 'a | Panics string

record FileInfo =
  fi_Path :: string
  fi_RelPath :: string
  fi_Size :: int
  fi_ModTime :: timestamp
  fi_Hash :: string
  fi_Language :: string

record Progress =
  TotalFiles :: int
  ProcessedFiles :: int
  SkippedFiles :: int
  TotalChunks :: int
  ProcessedChunks :: int
  Errors :: int
  StartTime :: timestamp
  CurrentFile :: string

text \<open>\<open>OnProgress\<close> says whether a callback is set; the paths and filters of the options are
  used only for the walk.\<close>

record IndexOptions =
  opt_StoreName :: string
  opt_Path :: string
  Force :: bool
  BatchSize :: int
  OnProgress :: bool

text \<open>The embedding service: the result of \<open>EmbedBatch\<close> for a batch of texts, and the three
  values recorded in a new store.\<close>

record Embedder =
  EmbedBatch :: "string list \<Rightarrow> error + embedding list"
  emb_Provider :: string
  emb_ModelName :: string
  emb_Dimensions :: int

text \<open>The struct \<open>Indexer\<close> (store, embedder, chunker options) together with the operating
  system calls it makes: \<open>os.ReadFile\<close>, \<open>os.Stat\<close>, \<open>filepath.Rel\<close> and the content hash.\<close>

record 's Indexer =
  idx_store :: "'s Store"
  idx_embedder :: Embedder
  idx_chunker :: ChunkOptions
  ReadFile :: "string \<Rightarrow> error + string"
  Stat :: filesystem
  Rel :: "string \<Rightarrow> string \<Rightarrow> error + string"
  HashContent :: "string \<Rightarrow> string"

text \<open>
  Everything a call can change or that can be observed from outside: the state of the
  store, the progress counters, the batches sent to the embedding service, the progress
  values handed to the callback, and the context.  \<open>ctx_left\<close> is the number of polls of
  \<open>ctx.Done()\<close> that still find the context alive (\<open>None\<close>: it is never cancelled).
\<close>

record 's world =
  store_state :: 's
  progress :: Progress
  embed_calls :: "string list list"
  reports :: "Progress list"
  ctx_left :: "nat option"

definition ctx_done :: "'s world \<Rightarrow> bool" where
  "ctx_done w = (ctx_left w = Some 0)"

definition ctx_poll :: "'s world \<Rightarrow> 's world" where
  "ctx_poll w = w\<lparr>ctx_left := map_option (\<lambda>n. n - 1) (ctx_left w)\<rparr>"

definition report :: "IndexOptions \<Rightarrow> 's world \<Rightarrow> 's world" where
  "report opts w = (if OnProgress opts then w\<lparr>reports := reports w @ [progress w]\<rparr> else w)"

definition to_store_chunk :: "Chunk \<Rightarrow> StoreChunk" where
  "to_store_chunk c =
     \<lparr>sc_Content = Content c, sc_StartLine = StartLine c, sc_EndLine = EndLine c,
      sc_ChunkIndex = ChunkIndex c\<rparr>"

subsection \<open>indexFile\<close>

text \<open>
  The batch loop of \<open>indexFile\<close>; \<open>rest\<close> is \<open>chunks[i:]\<close>.  The caller makes \<open>batchSize\<close>
  positive; the loop is written to stop for 0 as well, a case the code never reaches.  An
  embedding service that returns fewer vectors than texts makes \<open>embeddingVectors[j]\<close> panic.
\<close>

function embed_batches ::
  "'s Indexer \<Rightarrow> IndexOptions \<Rightarrow> nat \<Rightarrow> Chunk list \<Rightarrow> StoreChunk list \<Rightarrow> embedding list \<Rightarrow> 's world
     \<Rightarrow> ((error + StoreChunk list \<times> embedding list) \<times> 's world) go" where
  "embed_batches idx opts batchSize rest storeChunks allEmbeddings w =
     (if rest = [] \<or> batchSize = 0 then Returns (Inr (storeChunks, allEmbeddings), w)
      else if ctx_done w then Returns (Inl (Err ''context canceled''), w)
      else
        let batch = take batchSize rest;
            texts = map Content batch;
            w1 = (ctx_poll w)\<lparr>embed_calls := embed_calls w @ [texts]\<rparr>
        in
        (case EmbedBatch (idx_embedder idx) texts of
           Inl e \<Rightarrow> Returns (Inl (Err ''failed to generate embeddings''), w1)
         | Inr embeddingVectors \<Rightarrow>
             if length embeddingVectors < length batch
             then Panics ''index out of range''
             else
               let w2 = w1\<lparr>progress := (progress w1)
                             \<lparr>ProcessedChunks :=
                                ProcessedChunks (progress w1) + int (length batch)\<rparr>\<rparr>
               in embed_batches idx opts batchSize (drop batchSize rest)
                    (storeChunks @ map to_store_chunk batch)
                    (allEmbeddings @ take (length batch) embeddingVectors)
                    (report opts w2)))"
  by pat_completeness auto
termination
  by (relation "measure (\<lambda>(idx, opts, batchSize, rest, storeChunks, allEmbeddings, w). length rest)")
     auto

text \<open>\<open>Indexer.indexFile\<close>.  A failed lookup of the stored record is logged and the file is
  indexed.\<close>

definition indexFile ::
  "'s Indexer \<Rightarrow> IndexOptions \<Rightarrow> StoreRecord \<Rightarrow> FileInfo \<Rightarrow> 's world \<Rightarrow> (error option \<times> 's world) go" where
  "indexFile idx opts storeRecord fi w =
     (let unchanged =
            (if \<not> Force opts then
               (case GetFileByExternalID (idx_store idx) (store_state w) (sr_ID storeRecord)
                       (fi_RelPath fi) of
                  Inl e \<Rightarrow> False
                | Inr existing \<Rightarrow>
                    (case existing of
                       None \<Rightarrow> False
                     | Some record \<Rightarrow> fr_Hash record = fi_Hash fi))
             else False)
      in
      if unchanged
      then Returns (None,
             w\<lparr>progress := (progress w)\<lparr>SkippedFiles := SkippedFiles (progress w) + 1\<rparr>\<rparr>)
      else
        (case ReadFile idx (fi_Path fi) of
           Inl e \<Rightarrow> Returns (Some (Err ''failed to read file''), w)
         | Inr content \<Rightarrow>
             let chunks = TextChunker_Chunk (idx_chunker idx) content (fi_Path fi) in
             if length chunks = 0 then Returns (None, w)
             else
               let w1 = w\<lparr>progress := (progress w)
                            \<lparr>TotalChunks := TotalChunks (progress w) + int (length chunks)\<rparr>\<rparr>;
                   batchSize = (if BatchSize opts \<le> 0 then 50 else BatchSize opts)
               in
               (case embed_batches idx opts (nat batchSize) chunks [] [] w1 of
                  Panics msg \<Rightarrow> Panics msg
                | Returns (Inl e, w2) \<Rightarrow> Returns (Some e, w2)
                | Returns (Inr (storeChunks, allEmbeddings), w2) \<Rightarrow>
                    let fileInput =
                          \<lparr>in_ExternalID = fi_RelPath fi, in_Path = fi_Path fi,
                           in_RelativePath = fi_RelPath fi, in_Hash = fi_Hash fi,
                           in_FileSize = fi_Size fi\<rparr>
                    in
                    (case UpsertFile (idx_store idx) (store_state w2) (sr_ID storeRecord)
                            fileInput storeChunks allEmbeddings of
                       (Some e, s) \<Rightarrow>
                         Returns (Some (Err ''failed to store file''), w2\<lparr>store_state := s\<rparr>)
                     | (None, s) \<Rightarrow> Returns (None, w2\<lparr>store_state := s\<rparr>)))))"

text \<open>The loop of \<open>Indexer.Index\<close> over the files that the walk collected.\<close>

fun index_files ::
  "'s Indexer \<Rightarrow> IndexOptions \<Rightarrow> StoreRecord \<Rightarrow> FileInfo list \<Rightarrow> 's world \<Rightarrow> (error option \<times> 's world) go" where
  "index_files idx opts storeRecord [] w = Returns (None, w)"
| "index_files idx opts storeRecord (fi # files) w =
     (if ctx_done w then Returns (Some (Err ''context canceled''), w)
      else
        let w1 = (ctx_poll w)\<lparr>progress := (progress w)\<lparr>CurrentFile := fi_RelPath fi\<rparr>\<rparr> in
        (case indexFile idx opts storeRecord fi w1 of
           Panics msg \<Rightarrow> Panics msg
         | Returns (Some e, w2) \<Rightarrow>
             index_files idx opts storeRecord files
               (w2\<lparr>progress := (progress w2)\<lparr>Errors := Errors (progress w2) + 1\<rparr>\<rparr>)
         | Returns (None, w2) \<Rightarrow>
             index_files idx opts storeRecord files
               (report opts
                  (w2\<lparr>progress := (progress w2)
                        \<lparr>ProcessedFiles := ProcessedFiles (progress w2) + 1\<rparr>\<rparr>))))"

subsection \<open>Stores by name\<close>

definition getOrCreateStore ::
  "'s Indexer \<Rightarrow> string \<Rightarrow> string \<Rightarrow> 's world \<Rightarrow> (error + StoreRecord) \<times> 's world" where
  "getOrCreateStore idx name path w =
     (case GetStore (idx_store idx) (store_state w) name of
        Inl e \<Rightarrow> (Inl (Err ''failed to check for existing store''), w)
      | Inr (Some existing) \<Rightarrow> (Inr existing, w)
      | Inr None \<Rightarrow>
          (case CreateStore (idx_store idx) (store_state w) name path
                  (emb_Provider (idx_embedder idx)) (emb_ModelName (idx_embedder idx))
                  (emb_Dimensions (idx_embedder idx)) of
             (Inl e, s) \<Rightarrow> (Inl (Err ''failed to create store''), w\<lparr>store_state := s\<rparr>)
           | (Inr storeRecord, s) \<Rightarrow> (Inr storeRecord, w\<lparr>store_state := s\<rparr>)))"

text \<open>\<open>Indexer.IndexSingleFile\<close>, the watcher's entry: always with \<open>Force\<close>.\<close>

definition IndexSingleFile ::
  "'s Indexer \<Rightarrow> string \<Rightarrow> string \<Rightarrow> string \<Rightarrow> 's world \<Rightarrow> (error option \<times> 's world) go" where
  "IndexSingleFile idx storeName rootPath filePath w =
     (case getOrCreateStore idx storeName rootPath w of
        (Inl e, w1) \<Rightarrow> Returns (Some e, w1)
      | (Inr storeRecord, w1) \<Rightarrow>
          (case Stat idx filePath of
             None \<Rightarrow> Returns (Some (Err ''failed to stat file''), w1)
           | Some info \<Rightarrow>
               (case Rel idx rootPath filePath of
                  Inl e \<Rightarrow> Returns (Some (Err ''failed to get relative path''), w1)
                | Inr relPath \<Rightarrow>
                    (case ReadFile idx filePath of
                       Inl e \<Rightarrow> Returns (Some (Err ''failed to read file''), w1)
                     | Inr content \<Rightarrow>
                         let fi = \<lparr>fi_Path = filePath, fi_RelPath = relPath,
                                   fi_Size = st_Size info, fi_ModTime = st_ModTime info,
                                   fi_Hash = HashContent idx content,
                                   fi_Language = DetectLanguage filePath\<rparr>;
                             opts = \<lparr>opt_StoreName = storeName, opt_Path = [], Force = True,
                                     BatchSize = 50, OnProgress = False\<rparr>
                         in indexFile idx opts storeRecord fi w1))))"

text \<open>\<open>Indexer.DeleteFile\<close> checks the error and the nil record.\<close>

definition Indexer_DeleteFile :: "'s Indexer \<Rightarrow> string \<Rightarrow> string \<Rightarrow> 's world \<Rightarrow> (error option \<times> 's world) go" where
  "Indexer_DeleteFile idx storeName relPath w =
     (case GetStore (idx_store idx) (store_state w) storeName of
        Inl e \<Rightarrow> Returns (Some (Err (''store not found: '' @ storeName)), w)
      | Inr None \<Rightarrow> Returns (Some (Err (''store not found: '' @ storeName)), w)
      | Inr (Some storeRecord) \<Rightarrow>
          (case DeleteFile (idx_store idx) (store_state w) (sr_ID storeRecord) relPath of
             (err, s) \<Rightarrow> Returns (err, w\<lparr>store_state := s\<rparr>)))"

text \<open>\<open>Indexer.Clear\<close> and \<open>Indexer.Stats\<close> check the error only and then read
  \<open>storeRecord.ID\<close>: on the nil record that is a nil pointer dereference.\<close>

definition Indexer_Clear :: "'s Indexer \<Rightarrow> string \<Rightarrow> 's world \<Rightarrow> (error option \<times> 's world) go" where
  "Indexer_Clear idx storeName w =
     (case GetStore (idx_store idx) (store_state w) storeName of
        Inl e \<Rightarrow> Returns (Some (Err (''store not found: '' @ storeName)), w)
      | Inr None \<Rightarrow> Panics ''invalid memory address or nil pointer dereference''
      | Inr (Some storeRecord) \<Rightarrow>
          (case ClearStore (idx_store idx) (store_state w) (sr_ID storeRecord) of
             (err, s) \<Rightarrow> Returns (err, w\<lparr>store_state := s\<rparr>)))"

definition Indexer_Stats :: "'s Indexer \<Rightarrow> string \<Rightarrow> 's world \<Rightarrow> (error + StoreStats) go" where
  "Indexer_Stats idx storeName w =
     (case GetStore (idx_store idx) (store_state w) storeName of
        Inl e \<Rightarrow> Returns (Inl (Err (''store not found: '' @ storeName)))
      | Inr None \<Rightarrow> Panics ''invalid memory address or nil pointer dereference''
      | Inr (Some storeRecord) \<Rightarrow>
          Returns (GetStats (idx_store idx) (store_state w) (sr_ID storeRecord)))"

section \<open>File walker (package fs)\<close>

subsection \<open>The directory tree\<close>

text \<open>
  A file of the tree: what \<open>d.Info()\<close> reports (\<open>None\<close> when it fails) and the bytes that
  \<open>os.Open\<close> and reading give (\<open>None\<close> when they fail).  A directory lists its entries in
  the order \<open>ReadDir\<close> returns them; for a directory that cannot be read (fully) these are
  the entries that were read, and the second call of the callback, with the error, does
  nothing.
\<close>

record file_node =
  fn_info :: "stat_info option"
  fn_content :: "string option"

datatype entry = File string file_node | Dir string "entry list"

fun entry_name :: "entry \<Rightarrow> string" where
  "entry_name (File name node) = name"
| "entry_name (Dir name entries) = name"

text \<open>\<open>filepath.Join(path, name)\<close> for a clean absolute path, and the path relative to the
  root that \<open>filepath.Rel\<close> gives for it (\<open>.\<close> for the root itself).\<close>

definition join_path :: "string \<Rightarrow> string \<Rightarrow> string" where
  "join_path path name = (if path = ''/'' then path @ name else path @ ''/'' @ name)"

definition join_rel :: "string \<Rightarrow> string \<Rightarrow> string" where
  "join_rel rel name = (if rel = ''.'' then name else rel @ ''/'' @ name)"

subsection \<open>The walker\<close>

record WalkOptions =
  Root :: string
  MaxFileSize :: int
  MaxFileCount :: int
  IncludeHidden :: bool
  UseGitignore :: bool
  Extensions :: "string list"

record WalkStats =
  FilesFound :: int
  FilesSkipped :: int
  DirsSkipped :: int
  TotalBytes :: int
  SkippedBytes :: int

text \<open>
  \<open>FileWalker\<close>: its options, the compiled ignore rules (the method \<open>MatchesPath\<close> of the
  gitignore library, \<open>None\<close> for a nil \<open>ignorer\<close>), the set of extensions (\<open>None\<close> for a nil
  map) and the content hash \<open>xxhash\<close>, formatted.
\<close>

record FileWalker =
  fw_opts :: WalkOptions
  fw_ignorer :: "(string \<Rightarrow> bool) option"
  fw_extSet :: "string list option"
  fw_hash :: "string \<Rightarrow> string"

definition FileWalker_shouldSkipDir :: "FileWalker \<Rightarrow> string \<Rightarrow> string \<Rightarrow> bool" where
  "FileWalker_shouldSkipDir fw name relPath =
     (if name = ''.git'' then True
      else if \<not> IncludeHidden (fw_opts fw) \<and> HasPrefix name ''.'' then True
      else if (case fw_ignorer fw of None \<Rightarrow> False | Some matches \<Rightarrow> matches (relPath @ ''/''))
      then True
      else False)"

definition shouldSkipFile :: "FileWalker \<Rightarrow> string \<Rightarrow> string \<Rightarrow> bool" where
  "shouldSkipFile fw name relPath =
     (if \<not> IncludeHidden (fw_opts fw) \<and> HasPrefix name ''.'' then True
      else if (case fw_ignorer fw of None \<Rightarrow> False | Some matches \<Rightarrow> matches relPath)
      then True
      else False)"

text \<open>\<open>isBinaryContent\<close>; the comparison of the ratio with 0.3 is exact for the at most
  8192 bytes it is given.\<close>

definition isBinaryContent :: "string \<Rightarrow> bool" where
  "isBinaryContent content =
     (if length content = 0 then False
      else if list_ex (\<lambda>b. of_char b = (0::nat)) content then True
      else
        let nonPrintable =
              length (filter (\<lambda>b. of_char b < (32::nat) \<and> b \<noteq> CHR 0x09 \<and> b \<noteq> CHR 0x0A \<and>
                                   b \<noteq> CHR 0x0D) content)
        in 10 * nonPrintable > 3 * length content)"

text \<open>What a walk changes: the statistics and the state of the caller's function \<open>fn\<close>; the
  list \<open>yielded\<close> records the \<open>FileInfo\<close> values handed to \<open>fn\<close>, in order.\<close>

record 'a walk_state =
  ws_stats :: WalkStats
  ws_user :: 'a
  yielded :: "FileInfo list"

text \<open>What the callback of \<open>filepath.WalkDir\<close> returns besides \<open>nil\<close>.\<close>

datatype walk_err = SkipDir | SkipAll | Failed error

text \<open>The callback of \<open>Walk\<close> for a file with path \<open>path\<close>, relative path \<open>relPath\<close> and name
  \<open>name\<close>.\<close>

definition visit_file ::
  "FileWalker \<Rightarrow> (FileInfo \<Rightarrow> 'a \<Rightarrow> walk_err option \<times> 'a) \<Rightarrow> string \<Rightarrow> string \<Rightarrow> string \<Rightarrow> file_node
     \<Rightarrow> 'a walk_state \<Rightarrow> walk_err option \<times> 'a walk_state" where
  "visit_file fw fn path relPath name node s =
     (let st = ws_stats s;
          skipped = s\<lparr>ws_stats := st\<lparr>FilesSkipped := FilesSkipped st + 1\<rparr>\<rparr>
      in
      if MaxFileCount (fw_opts fw) > 0 \<and> FilesFound st \<ge> MaxFileCount (fw_opts fw)
      then (Some SkipAll, s)
      else if shouldSkipFile fw name relPath then (None, skipped)
      else
        (case fn_info node of
           None \<Rightarrow> (None, s)
         | Some info \<Rightarrow>
             if MaxFileSize (fw_opts fw) > 0 \<and> st_Size info > MaxFileSize (fw_opts fw)
             then (None, s\<lparr>ws_stats := st\<lparr>FilesSkipped := FilesSkipped st + 1,
                                          SkippedBytes := SkippedBytes st + st_Size info\<rparr>\<rparr>)
             else if (case fw_extSet fw of
                        None \<Rightarrow> False
                      | Some exts \<Rightarrow> ToLower (Ext path) \<notin> set exts)
             then (None, skipped)
             else
               (case fn_content node of
                  None \<Rightarrow> (None, skipped)
                | Some content \<Rightarrow>
                    if isBinaryContent (take 8192 content) then (None, skipped)
                    else
                      let fileInfo =
                            \<lparr>fi_Path = path, fi_RelPath = relPath, fi_Size = st_Size info,
                             fi_ModTime = st_ModTime info, fi_Hash = fw_hash fw content,
                             fi_Language = DetectLanguage path\<rparr>;
                          s1 = s\<lparr>ws_stats := st\<lparr>FilesFound := FilesFound st + 1,
                                                  TotalBytes := TotalBytes st + st_Size info\<rparr>,
                                 yielded := yielded s @ [fileInfo]\<rparr>
                      in (case fn fileInfo (ws_user s1) of
                            (r, u) \<Rightarrow> (r, s1\<lparr>ws_user := u\<rparr>)))))"

text \<open>The callback for a directory.\<close>

definition visit_dir ::
  "FileWalker \<Rightarrow> string \<Rightarrow> string \<Rightarrow> 'a walk_state \<Rightarrow> walk_err option \<times> 'a walk_state" where
  "visit_dir fw name relPath s =
     (if FileWalker_shouldSkipDir fw name relPath
      then (Some SkipDir,
            s\<lparr>ws_stats := (ws_stats s)\<lparr>DirsSkipped := DirsSkipped (ws_stats s) + 1\<rparr>\<rparr>)
      else (None, s))"

text \<open>
  \<open>filepath.WalkDir\<close>: the callback is called for an entry; for a directory that it does not
  skip the entries follow.  \<open>SkipDir\<close> returned for a directory skips it; returned for a file
  it skips the rest of the file's directory.  \<open>SkipAll\<close> and every other error end the walk.
\<close>

fun walk_entry ::
  "FileWalker \<Rightarrow> (FileInfo \<Rightarrow> 'a \<Rightarrow> walk_err option \<times> 'a) \<Rightarrow> string \<Rightarrow> string \<Rightarrow> entry
     \<Rightarrow> 'a walk_state \<Rightarrow> walk_err option \<times> 'a walk_state"
and walk_children ::
  "FileWalker \<Rightarrow> (FileInfo \<Rightarrow> 'a \<Rightarrow> walk_err option \<times> 'a) \<Rightarrow> string \<Rightarrow> string \<Rightarrow> entry list
     \<Rightarrow> 'a walk_state \<Rightarrow> walk_err option \<times> 'a walk_state" where
  "walk_entry fw fn path relPath (File name node) s = visit_file fw fn path relPath name node s"
| "walk_entry fw fn path relPath (Dir name entries) s =
     (case visit_dir fw name relPath s of
        (Some SkipDir, s1) \<Rightarrow> (None, s1)
      | (Some err, s1) \<Rightarrow> (Some err, s1)
      | (None, s1) \<Rightarrow> walk_children fw fn path relPath entries s1)"
| "walk_children fw fn path relPath [] s = (None, s)"
| "walk_children fw fn path relPath (e # entries) s =
     (case walk_entry fw fn (join_path path (entry_name e)) (join_rel relPath (entry_name e)) e s of
        (Some SkipDir, s1) \<Rightarrow> (None, s1)
      | (Some err, s1) \<Rightarrow> (Some err, s1)
      | (None, s1) \<Rightarrow> walk_children fw fn path relPath entries s1)"

text \<open>\<open>FileWalker.Walk\<close> on the entries of the root directory.  The root is visited as a
  directory whose name is the base name of the root path.\<close>

definition no_stats :: WalkStats where
  "no_stats =
     \<lparr>FilesFound = 0, FilesSkipped = 0, DirsSkipped = 0, TotalBytes = 0, SkippedBytes = 0\<rparr>"

definition Walk ::
  "FileWalker \<Rightarrow> (FileInfo \<Rightarrow> 'a \<Rightarrow> walk_err option \<times> 'a) \<Rightarrow> entry list \<Rightarrow> 'a
     \<Rightarrow> walk_err option \<times> 'a walk_state" where
  "Walk fw fn entries user =
     (case walk_entry fw fn (Root (fw_opts fw)) ''.''
             (Dir (Base (Root (fw_opts fw))) entries)
             \<lparr>ws_stats = no_stats, ws_user = user, yielded = []\<rparr> of
        (Some SkipDir, s) \<Rightarrow> (None, s)
      | (Some SkipAll, s) \<Rightarrow> (None, s)
      | (r, s) \<Rightarrow> (r, s))"

text \<open>The relative paths of the files below a directory that are not dotfiles and are
  reached through directories that are not dot-directories.\<close>

fun visible_entry :: "string \<Rightarrow> entry \<Rightarrow> string list"
and visible_children :: "string \<Rightarrow> entry list \<Rightarrow> string list" where
  "visible_entry relPath (File name node) = (if HasPrefix name ''.'' then [] else [relPath])"
| "visible_entry relPath (Dir name entries) =
     (if HasPrefix name ''.'' then [] else visible_children relPath entries)"
| "visible_children relPath [] = []"
| "visible_children relPath (e # entries) =
     visible_entry (join_rel relPath (entry_name e)) e @ visible_children relPath entries"

section \<open>Watcher (package watcher)\<close>

text \<open>\<open>fsnotify.Op\<close> is a set of bits.  \<open>Has\<close> is only called with one of the single-bit
  constants, for which the tests \<open>o&h != 0\<close> and \<open>o&h == h\<close> of the library's versions
  agree.\<close>

type_synonym Op = "32 word"

definition Create :: Op where "Create = 1"
definition Write :: Op where "Write = 2"
definition Remove :: Op where "Remove = 4"
definition Rename :: Op where "Rename = 8"
definition Chmod :: Op where "Chmod = 16"

definition Has :: "Op \<Rightarrow> Op \<Rightarrow> bool" where
  "Has op h = (op AND h \<noteq> 0)"

record Event =
  ev_Name :: string
  ev_Op :: Op

text \<open>The fields of \<open>Watcher\<close> that its methods read; \<open>wt_MaxFileSize\<close> is
  \<open>cfg.Indexing.MaxFileSize\<close>.  Its indexer is passed to each method together with the
  operating system as it is at the time of the call.\<close>

record Watcher =
  wt_root :: string
  wt_storeName :: string
  wt_MaxFileSize :: int

text \<open>What the watcher changes: the pending map \<open>debounce\<close> (an association list with one
  entry per path, whose order stands for the order in which Go iterates the map), the
  directories added to the fsnotify watcher, the calls of the \<open>onEvent\<close> callback, and the
  world of its indexer.\<close>

record 's watcher_state =
  debounce :: "(string \<times> Op) list"
  watched :: "string list"
  emitted :: "(string \<times> string) list"
  idx_world :: "'s world"

text \<open>\<open>w.debounce[path] = op\<close>.\<close>

fun set_op :: "string \<Rightarrow> Op \<Rightarrow> (string \<times> Op) list \<Rightarrow> (string \<times> Op) list" where
  "set_op path op [] = [(path, op)]"
| "set_op path op (e # es) = (if fst e = path then (path, op) # es else e # set_op path op es)"

definition Watcher_shouldSkipDir :: "string \<Rightarrow> bool" where
  "Watcher_shouldSkipDir name =
     (name \<in> set [''node_modules'', ''vendor'', ''dist'', ''build'', ''out'', ''target'',
                   ''bin'', ''obj'', ''.git'', ''.idea'', ''.vscode'', ''__pycache__'',
                   ''coverage'', ''.nyc_output''])"

text \<open>\<open>Watcher.isIndexableFile\<close>.\<close>

definition isIndexableFile :: "int \<Rightarrow> filesystem \<Rightarrow> string \<Rightarrow> bool" where
  "isIndexableFile maxFileSize fs path =
     (let ext = ToLower (Ext path) in
      if ext = [] then False
      else
        let lang = DetectLanguage path in
        if lang = LangUnknown then False
        else
          (case fs path of
             None \<Rightarrow> False
           | Some info \<Rightarrow>
               if maxFileSize > 0 \<and> st_Size info > maxFileSize then False else True))"

definition is_directory :: "filesystem \<Rightarrow> string \<Rightarrow> bool" where
  "is_directory fs path = (case fs path of None \<Rightarrow> False | Some info \<Rightarrow> st_IsDir info)"

text \<open>\<open>Watcher.handleEvent\<close>, on the file system \<open>fs\<close> of the moment the event is handled.\<close>

definition handleEvent :: "Watcher \<Rightarrow> filesystem \<Rightarrow> Event \<Rightarrow> 's watcher_state \<Rightarrow> 's watcher_state" where
  "handleEvent wt fs event ws =
     (let path = ev_Name event in
      if HasPrefix (Base path) ''.'' then ws
      else if Has (ev_Op event) Create \<and> is_directory fs path then
        (if \<not> Watcher_shouldSkipDir (Base path) then ws\<lparr>watched := watched ws @ [path]\<rparr> else ws)
      else if is_directory fs path then ws
      else if \<not> isIndexableFile (wt_MaxFileSize wt) fs path then ws
      else ws\<lparr>debounce := set_op path (ev_Op event) (debounce ws)\<rparr>)"

text \<open>\<open>relPath, _ := filepath.Rel(w.root, path)\<close>: the empty string when \<open>Rel\<close> fails.\<close>

definition rel_or_empty :: "'s Indexer \<Rightarrow> string \<Rightarrow> string \<Rightarrow> string" where
  "rel_or_empty idx base path = (case Rel idx base path of Inl e \<Rightarrow> [] | Inr r \<Rightarrow> r)"

definition handleDelete ::
  "Watcher \<Rightarrow> 's Indexer \<Rightarrow> string \<Rightarrow> 's world \<Rightarrow> (error option \<times> 's world) go" where
  "handleDelete wt idx path w =
     Indexer_DeleteFile idx (wt_storeName wt) (rel_or_empty idx (wt_root wt) path) w"

definition handleModify ::
  "Watcher \<Rightarrow> 's Indexer \<Rightarrow> string \<Rightarrow> 's world \<Rightarrow> (error option \<times> 's world) go" where
  "handleModify wt idx path w =
     (case Indexer_DeleteFile idx (wt_storeName wt) (rel_or_empty idx (wt_root wt) path) w of
        Panics msg \<Rightarrow> Panics msg
      | Returns (err, w1) \<Rightarrow> IndexSingleFile idx (wt_storeName wt) (wt_root wt) path w1)"

text \<open>One iteration of the loop of \<open>flushDebounced\<close>, after the poll of the context.\<close>

definition flush_entry ::
  "Watcher \<Rightarrow> 's Indexer \<Rightarrow> string \<times> Op \<Rightarrow> 's watcher_state \<Rightarrow> 's watcher_state go" where
  "flush_entry wt idx entry ws =
     (let path = fst entry; op = snd entry;
          relPath = rel_or_empty idx (wt_root wt) path
      in
      if Has op Remove \<or> Has op Rename then
        (case handleDelete wt idx path (idx_world ws) of
           Panics msg \<Rightarrow> Panics msg
         | Returns (Some e, w) \<Rightarrow> Returns (ws\<lparr>idx_world := w\<rparr>)
         | Returns (None, w) \<Rightarrow>
             Returns (ws\<lparr>idx_world := w, emitted := emitted ws @ [(''delete'', relPath)]\<rparr>))
      else if Has op Create \<or> Has op Write then
        (case handleModify wt idx path (idx_world ws) of
           Panics msg \<Rightarrow> Panics msg
         | Returns (Some e, w) \<Rightarrow> Returns (ws\<lparr>idx_world := w\<rparr>)
         | Returns (None, w) \<Rightarrow>
             Returns (ws\<lparr>idx_world := w, emitted := emitted ws @ [(''index'', relPath)]\<rparr>))
      else Returns ws)"

fun flush_loop ::
  "Watcher \<Rightarrow> 's Indexer \<Rightarrow> (string \<times> Op) list \<Rightarrow> 's watcher_state \<Rightarrow> 's watcher_state go" where
  "flush_loop wt idx [] ws = Returns ws"
| "flush_loop wt idx (entry # entries) ws =
     (if ctx_done (idx_world ws) then Returns ws
      else
        (case flush_entry wt idx entry (ws\<lparr>idx_world := ctx_poll (idx_world ws)\<rparr>) of
           Panics msg \<Rightarrow> Panics msg
         | Returns ws1 \<Rightarrow> flush_loop wt idx entries ws1))"

text \<open>\<open>Watcher.flushDebounced\<close>: the pending map is copied and cleared, then drained.\<close>

definition flushDebounced :: "Watcher \<Rightarrow> 's Indexer \<Rightarrow> 's watcher_state \<Rightarrow> 's watcher_state go" where
  "flushDebounced wt idx ws =
     (if length (debounce ws) = 0 then Returns ws
      else flush_loop wt idx (debounce ws) (ws\<lparr>debounce := []\<rparr>))"

section \<open>Tool server (package mcp)\<close>

text \<open>A JSON value of type \<open>any\<close> or \<open>json.RawMessage\<close> is kept as its text; \<open>None\<close> is
  \<open>nil\<close>.\<close>

record Request =
  req_JSONRPC :: string
  req_ID :: "string option"
  Method :: string
  Params :: "string option"

record RpcError =
  Code :: int
  Message :: string
  Data :: string

text \<open>The values the handlers return as \<open>result\<close>.\<close>

datatype result =
    InitializeResult string string string
  | ListToolsResult "string list"
  | CallToolResult string bool
  | EmptyObject

record Response =
  resp_JSONRPC :: string
  resp_ID :: "string option"
  resp_Result :: "result option"
  resp_Error :: "RpcError option"

definition ErrorCodeParse :: int where "ErrorCodeParse = - 32700"
definition ErrorCodeInvalidRequest :: int where "ErrorCodeInvalidRequest = - 32600"
definition ErrorCodeMethodNotFound :: int where "ErrorCodeMethodNotFound = - 32601"
definition ErrorCodeInvalidParams :: int where "ErrorCodeInvalidParams = - 32602"
definition ErrorCodeInternal :: int where "ErrorCodeInternal = - 32603"

definition MCPVersion :: string where "MCPVersion = ''2024-11-05''"
definition ServerName :: string where "ServerName = ''lgrep''"
definition ServerVersion :: string where "ServerVersion = ''1.0.0''"

text \<open>
  What the server is built on: \<open>json.Unmarshal\<close> into a \<open>Request\<close> and into the parameters
  of \<open>initialize\<close> (only its success matters), and \<open>handleCallTool\<close>, which runs a search or
  an indexing pass on the world \<open>'w\<close> behind the server and may panic with it.
\<close>

record 'w Server =
  Unmarshal :: "string \<Rightarrow> error + Request"
  UnmarshalInitializeParams :: "string \<Rightarrow> error option"
  handleCallTool :: "'w \<Rightarrow> string option \<Rightarrow> ((error + result) \<times> 'w) go"

text \<open>The state of a running server: the flag \<open>initialized\<close>, the responses written to
  standard output (one line each), the world behind it, and the polls of the context still
  to succeed.\<close>

record 'w server_state =
  initialized :: bool
  responses :: "Response list"
  srv_world :: 'w
  srv_ctx :: "nat option"

definition error_message :: "error \<Rightarrow> string" where
  "error_message e = (case e of Err msg \<Rightarrow> msg)"

text \<open>\<open>send\<close> marshals the response and prints it; the responses built here always marshal.\<close>

definition sendResult :: "string option \<Rightarrow> result \<Rightarrow> 'w server_state \<Rightarrow> 'w server_state" where
  "sendResult ident res st =
     st\<lparr>responses := responses st @
          [\<lparr>resp_JSONRPC = ''2.0'', resp_ID = ident, resp_Result = Some res, resp_Error = None\<rparr>]\<rparr>"

definition sendError :: "string option \<Rightarrow> int \<Rightarrow> string \<Rightarrow> string \<Rightarrow> 'w server_state \<Rightarrow> 'w server_state" where
  "sendError ident code message data st =
     st\<lparr>responses := responses st @
          [\<lparr>resp_JSONRPC = ''2.0'', resp_ID = ident, resp_Result = None,
            resp_Error = Some \<lparr>Code = code, Message = message, Data = data\<rparr>\<rparr>]\<rparr>"

definition handleInitialize :: "'w Server \<Rightarrow> string option \<Rightarrow> error + result" where
  "handleInitialize srv params =
     (case (case params of None \<Rightarrow> None | Some raw \<Rightarrow> UnmarshalInitializeParams srv raw) of
        Some e \<Rightarrow> Inl (Err (''invalid params: '' @ error_message e))
      | None \<Rightarrow> Inr (InitializeResult MCPVersion ServerName ServerVersion))"

definition handleListTools :: "error + result" where
  "handleListTools = Inr (ListToolsResult [''lgrep_search'', ''lgrep_index''])"

text \<open>The end of \<open>handleRequest\<close>, after the switch.\<close>

definition respond :: "string option \<Rightarrow> error + result \<Rightarrow> 'w server_state \<Rightarrow> 'w server_state" where
  "respond ident r st =
     (case r of
        Inl e \<Rightarrow> sendError ident ErrorCodeInternal ''Internal error'' (error_message e) st
      | Inr res \<Rightarrow> sendResult ident res st)"

definition handleRequest :: "'w Server \<Rightarrow> Request \<Rightarrow> 'w server_state \<Rightarrow> 'w server_state go" where
  "handleRequest srv req st =
     (if Method req = ''initialize''
      then Returns (respond (req_ID req) (handleInitialize srv (Params req)) st)
      else if Method req = ''initialized'' then Returns (st\<lparr>initialized := True\<rparr>)
      else if Method req = ''tools/list'' then Returns (respond (req_ID req) handleListTools st)
      else if Method req = ''tools/call'' then
        (case handleCallTool srv (srv_world st) (Params req) of
           Panics msg \<Rightarrow> Panics msg
         | Returns (r, w) \<Rightarrow> Returns (respond (req_ID req) r (st\<lparr>srv_world := w\<rparr>)))
      else if Method req = ''ping'' then Returns (respond (req_ID req) (Inr EmptyObject) st)
      else Returns (sendError (req_ID req) ErrorCodeMethodNotFound ''Method not found''
                      (Method req) st))"

text \<open>The methods that \<open>handleRequest\<close> knows.\<close>

definition known_methods :: "string list" where
  "known_methods = [''initialize'', ''initialized'', ''tools/list'', ''tools/call'', ''ping'']"

text \<open>The body of the loop of \<open>Run\<close> for a line that \<open>ReadString\<close> returned.\<close>

definition serve_line :: "'w Server \<Rightarrow> string \<Rightarrow> 'w server_state \<Rightarrow> 'w server_state go" where
  "serve_line srv line0 st =
     (let line = TrimSpace line0 in
      if line = [] then Returns st
      else
        (case Unmarshal srv line of
           Inl e \<Rightarrow> Returns (sendError None ErrorCodeParse ''Parse error'' (error_message e) st)
         | Inr req \<Rightarrow> handleRequest srv req st))"

text \<open>What \<open>s.reader.ReadString('\n')\<close> gives: a line with its newline, the end of the
  input (any unfinished last line is dropped with it), or another error.\<close>

datatype read_result = ReadLine string | ReadEOF | ReadFailed

text \<open>\<open>Server.Run\<close> on the sequence of reads; the input ends when the reads do.  The result
  is the returned error and the final state.\<close>

fun Run :: "'w Server \<Rightarrow> read_result list \<Rightarrow> 'w server_state \<Rightarrow> (error option \<times> 'w server_state) go" where
  "Run srv [] st = Returns (None, st)"
| "Run srv (r # reads) st =
     (if srv_ctx st = Some 0 then Returns (Some (Err ''context canceled''), st)
      else
        let st1 = st\<lparr>srv_ctx := map_option (\<lambda>n. n - 1) (srv_ctx st)\<rparr> in
        (case r of
           ReadEOF \<Rightarrow> Returns (None, st1)
         | ReadFailed \<Rightarrow> Run srv reads st1
         | ReadLine line \<Rightarrow>
             (case serve_line srv line st1 of
                Panics msg \<Rightarrow> Panics msg
              | Returns st2 \<Rightarrow> Run srv reads st2)))"

section \<open>Example data\<close>

text \<open>A store with one indexed file of one chunk, and a second version of that file.\<close>

definition no_faults :: faults where
  "no_faults s = False"

definition example_db :: database where
  "example_db =
     \<lparr>tbl_stores =
        [\<lparr>sr_ID = 1, sr_Name = ''test'', sr_RootPath = ''/path'',
          sr_EmbeddingProvider = ''ollama'', sr_EmbeddingModel = ''model'',
          sr_EmbeddingDimensions = 2, sr_CreatedAt = 0, sr_UpdatedAt = 0\<rparr>],
      tbl_files =
        [\<lparr>fr_ID = 1, fr_StoreID = 1, fr_ExternalID = ''src/main.go'',
          fr_Path = ''/path/src/main.go'', fr_RelativePath = ''src/main.go'',
          fr_Hash = ''hash1'', fr_FileSize = 100, fr_IndexedAt = 5\<rparr>],
      tbl_chunks =
        [\<lparr>cr_ID = 1, cr_FileID = 1, cr_ChunkIndex = 0, cr_Content = ''v1'',
          cr_StartLine = 1, cr_EndLine = 1\<rparr>],
      tbl_chunk_vectors = [(1, [1, 0])],
      seq_stores = 1, seq_files = 1, seq_chunks = 1,
      vec_dimensions = Some 2\<rparr>"

definition example_file :: FileInput where
  "example_file =
     \<lparr>in_ExternalID = ''src/main.go'', in_Path = ''/path/src/main.go'',
      in_RelativePath = ''src/main.go'', in_Hash = ''hash2'', in_FileSize = 200\<rparr>"

definition example_chunks :: "StoreChunk list" where
  "example_chunks =
     [\<lparr>sc_Content = ''v2-a'', sc_StartLine = 1, sc_EndLine = 5, sc_ChunkIndex = 0\<rparr>,
      \<lparr>sc_Content = ''v2-b'', sc_StartLine = 6, sc_EndLine = 10, sc_ChunkIndex = 1\<rparr>]"

definition example_embeddings :: "embedding list" where
  "example_embeddings = [[0, 1], [1, 1]]"

text \<open>Two stores that index the same relative path, the file of the second store first in
  the table, each file with one chunk and its vector; and an oracle that lets the insert of
  the second vector fail.\<close>

definition two_store_db :: database where
  "two_store_db =
     \<lparr>tbl_stores =
        [\<lparr>sr_ID = 1, sr_Name = ''test'', sr_RootPath = ''/path'',
          sr_EmbeddingProvider = ''ollama'', sr_EmbeddingModel = ''model'',
          sr_EmbeddingDimensions = 2, sr_CreatedAt = 0, sr_UpdatedAt = 0\<rparr>,
         \<lparr>sr_ID = 2, sr_Name = ''other'', sr_RootPath = ''/other'',
          sr_EmbeddingProvider = ''ollama'', sr_EmbeddingModel = ''model'',
          sr_EmbeddingDimensions = 2, sr_CreatedAt = 1, sr_UpdatedAt = 1\<rparr>],
      tbl_files =
        [\<lparr>fr_ID = 1, fr_StoreID = 2, fr_ExternalID = ''src/main.go'',
          fr_Path = ''/other/src/main.go'', fr_RelativePath = ''src/main.go'',
          fr_Hash = ''theirs'', fr_FileSize = 50, fr_IndexedAt = 3\<rparr>,
         \<lparr>fr_ID = 2, fr_StoreID = 1, fr_ExternalID = ''src/main.go'',
          fr_Path = ''/path/src/main.go'', fr_RelativePath = ''src/main.go'',
          fr_Hash = ''hash1'', fr_FileSize = 100, fr_IndexedAt = 5\<rparr>],
      tbl_chunks =
        [\<lparr>cr_ID = 1, cr_FileID = 1, cr_ChunkIndex = 0, cr_Content = ''theirs'',
          cr_StartLine = 1, cr_EndLine = 1\<rparr>,
         \<lparr>cr_ID = 2, cr_FileID = 2, cr_ChunkIndex = 0, cr_Content = ''v1'',
          cr_StartLine = 1, cr_EndLine = 1\<rparr>],
      tbl_chunk_vectors = [(1, [1, 0]), (2, [1, 0])],
      seq_stores = 2, seq_files = 2, seq_chunks = 2,
      vec_dimensions = Some 2\<rparr>"

definition second_vector_fails :: faults where
  "second_vector_fails s = (s = InsertVector 1)"

text \<open>A store whose only vector points away from the query \<open>[1, 0]\<close>.\<close>

definition opposite_db :: database where
  "opposite_db =
     \<lparr>tbl_stores =
        [\<lparr>sr_ID = 1, sr_Name = ''test'', sr_RootPath = ''/path'',
          sr_EmbeddingProvider = ''ollama'', sr_EmbeddingModel = ''model'',
          sr_EmbeddingDimensions = 2, sr_CreatedAt = 0, sr_UpdatedAt = 0\<rparr>],
      tbl_files =
        [\<lparr>fr_ID = 1, fr_StoreID = 1, fr_ExternalID = ''a.go'',
          fr_Path = ''/path/a.go'', fr_RelativePath = ''a.go'',
          fr_Hash = ''h'', fr_FileSize = 100, fr_IndexedAt = 5\<rparr>],
      tbl_chunks =
        [\<lparr>cr_ID = 1, cr_FileID = 1, cr_ChunkIndex = 0, cr_Content = ''x'',
          cr_StartLine = 1, cr_EndLine = 1\<rparr>],
      tbl_chunk_vectors = [(1, [- 1, 0])],
      seq_stores = 1, seq_files = 1, seq_chunks = 1,
      vec_dimensions = Some 2\<rparr>"

text \<open>An indexer on the SQLite store without faults: an embedding service that answers
  every text with the same vector, a disk with the one file of \<open>example_db\<close>, unchanged.\<close>

definition example_embedder :: Embedder where
  "example_embedder =
     \<lparr>EmbedBatch = (\<lambda>texts. Inr (map (\<lambda>t. [1, 0]) texts)),
      emb_Provider = ''ollama'', emb_ModelName = ''model'', emb_Dimensions = 2\<rparr>"

definition example_indexer :: "database Indexer" where
  "example_indexer =
     \<lparr>idx_store = SQLiteStore no_faults 9,
      idx_embedder = example_embedder,
      idx_chunker = NewTextChunker \<lparr>ChunkSize = 1500, ChunkOverlap = 200, MinChunkSize = 100\<rparr>,
      ReadFile = (\<lambda>p. if p = ''/path/src/main.go'' then Inr ''package main'' else Inl (Err ''no such file'')),
      Stat = (\<lambda>p. if p = ''/path/src/main.go''
                   then Some \<lparr>st_IsDir = False, st_Size = 12, st_ModTime = 4\<rparr> else None),
      Rel = (\<lambda>root p. Inr (drop (Suc (length root)) p)),
      HashContent = (\<lambda>content. ''hash1'')\<rparr>"

definition example_world :: "database world" where
  "example_world =
     \<lparr>store_state = example_db,
      progress = \<lparr>TotalFiles = 1, ProcessedFiles = 0, SkippedFiles = 0, TotalChunks = 0,
                  ProcessedChunks = 0, Errors = 0, StartTime = 8, CurrentFile = ''src/main.go''\<rparr>,
      embed_calls = [], reports = [], ctx_left = None\<rparr>"

definition example_fileinfo :: FileInfo where
  "example_fileinfo =
     \<lparr>fi_Path = ''/path/src/main.go'', fi_RelPath = ''src/main.go'', fi_Size = 12,
      fi_ModTime = 4, fi_Hash = ''hash1'', fi_Language = ''go''\<rparr>"

definition example_options :: IndexOptions where
  "example_options =
     \<lparr>opt_StoreName = ''test'', opt_Path = ''/path'', Force = False, BatchSize = 50,
      OnProgress = True\<rparr>"

text \<open>A watcher on the example store.  In \<open>pending_write\<close> a \<open>Write\<close> to \<open>src/main.go\<close>
  is pending; \<open>removed_fs\<close> is the disk after that file has been removed, \<open>removed_indexer\<close>
  the indexer on that disk.\<close>

definition example_watcher :: Watcher where
  "example_watcher = \<lparr>wt_root = ''/path'', wt_storeName = ''test'', wt_MaxFileSize = 1048576\<rparr>"

definition present_fs :: filesystem where
  "present_fs p =
     (if p = ''/path/src/main.go''
      then Some \<lparr>st_IsDir = False, st_Size = 12, st_ModTime = 4\<rparr> else None)"

definition removed_fs :: filesystem where
  "removed_fs p = None"

definition removed_indexer :: "database Indexer" where
  "removed_indexer =
     example_indexer\<lparr>Stat := removed_fs, ReadFile := (\<lambda>p. Inl (Err ''no such file''))\<rparr>"

definition idle_watcher :: "database watcher_state" where
  "idle_watcher = \<lparr>debounce = [], watched = [''/path''], emitted = [], idx_world = example_world\<rparr>"

definition pending_write :: "database watcher_state" where
  "pending_write = idle_watcher\<lparr>debounce := [(''/path/src/main.go'', Write)]\<rparr>"

definition write_event :: Event where
  "write_event = \<lparr>ev_Name = ''/path/src/main.go'', ev_Op = Write\<rparr>"

definition remove_event :: Event where
  "remove_event = \<lparr>ev_Name = ''/path/src/main.go'', ev_Op = Remove\<rparr>"

definition makefile_fs :: filesystem where
  "makefile_fs p =
     (if p = ''/path/Makefile''
      then Some \<lparr>st_IsDir = False, st_Size = 120, st_ModTime = 4\<rparr> else None)"

text \<open>A server whose parser knows one request, for a method the server does not have.\<close>

definition quoted :: "string \<Rightarrow> string" where
  "quoted s = CHR 0x22 # s @ [CHR 0x22]"

definition unknown_method_line :: string where
  "unknown_method_line =
     ''{'' @ quoted ''jsonrpc'' @ '':'' @ quoted ''2.0'' @ '','' @ quoted ''id'' @ '':7,'' @
     quoted ''method'' @ '':'' @ quoted ''resources/list'' @ ''}''"

definition example_server :: "unit Server" where
  "example_server =
     \<lparr>Unmarshal = (\<lambda>line. if line = unknown_method_line
                           then Inr \<lparr>req_JSONRPC = ''2.0'', req_ID = Some ''7'',
                                     Method = ''resources/list'', Params = None\<rparr>
                           else Inl (Err ''invalid character'')),
      UnmarshalInitializeParams = (\<lambda>raw. None),
      handleCallTool = (\<lambda>w params. Returns (Inr (CallToolResult ''No results found.'' False), w))\<rparr>"

definition fresh_server :: "unit server_state" where
  "fresh_server = \<lparr>initialized = False, responses = [], srv_world = (), srv_ctx = None\<rparr>"

text \<open>A tree with a Go file, a dotfile and a dot-directory, walked from a root named
  \<open>.dotfiles\<close> and from a root named \<open>project\<close>; \<open>collect\<close> is the function that
  \<open>Indexer.Index\<close> passes to \<open>Walk\<close>.\<close>

definition text_file :: "string \<Rightarrow> file_node" where
  "text_file content =
     \<lparr>fn_info = Some \<lparr>st_IsDir = False, st_Size = int (length content), st_ModTime = 4\<rparr>,
      fn_content = Some content\<rparr>"

definition example_tree :: "entry list" where
  "example_tree =
     [File ''.hidden'' (text_file ''hidden file''),
      Dir ''.cache'' [File ''tmp.go'' (text_file ''package tmp'')],
      Dir ''lib'' [File ''lib.go'' (text_file ''package lib'')],
      File ''main.go'' (text_file ''package main'')]"

definition collect :: "FileInfo \<Rightarrow> FileInfo list \<Rightarrow> walk_err option \<times> FileInfo list" where
  "collect fi files = (None, files @ [fi])"

definition walker_at :: "string \<Rightarrow> FileWalker" where
  "walker_at rootPath =
     \<lparr>fw_opts = \<lparr>Root = rootPath, MaxFileSize = 1048576, MaxFileCount = 10000,
                  IncludeHidden = False, UseGitignore = True, Extensions = []\<rparr>,
      fw_ignorer = Some (\<lambda>p. False), fw_extSet = None, fw_hash = (\<lambda>content. ''0000000000000000'')\<rparr>"

section \<open>Properties\<close>

lemmas Lang_defs =
  LangGo_def LangTypeScript_def LangJavaScript_def LangPython_def LangRust_def LangJava_def
  LangC_def LangCPP_def LangCSharp_def LangRuby_def LangPHP_def LangSwift_def LangKotlin_def
  LangScala_def LangShell_def LangSQL_def LangHTML_def LangCSS_def LangJSON_def LangYAML_def
  LangTOML_def LangMarkdown_def LangXML_def LangText_def LangUnknown_def

subsection \<open>Chunker\<close>

lemma SplitLines_nonempty: "SplitLines s \<noteq> []"
  by (induction s) (auto split: list.splits)

lemma indexed_Nil: "indexed []"
  by (simp add: indexed_def)

lemma indexed_snoc: "indexed cs \<Longrightarrow> ChunkIndex c = int (length cs) \<Longrightarrow> indexed (cs @ [c])"
  by (simp add: indexed_def)

lemma indexed_update_last:
  assumes "indexed cs" and "cs \<noteq> []" and "ChunkIndex c = ChunkIndex (last cs)"
  shows "indexed (cs[length cs - 1 := c])"
proof -
  have "map ChunkIndex (cs[length cs - 1 := c]) = (map ChunkIndex cs)[length cs - 1 := ChunkIndex c]"
    by (simp add: map_update)
  also have "\<dots> = map ChunkIndex cs"
    using assms(2,3) by (simp add: last_conv_nth list_update_same_conv)
  finally show ?thesis using assms(1) by (simp add: indexed_def)
qed

lemma text_step_lines: "currentLines (text_step opts st n line) \<noteq> []"
  by (simp add: text_step_def Let_def split: prod.splits)

lemma text_step_indexed: "indexed (out_chunks st) \<Longrightarrow> indexed (out_chunks (text_step opts st n line))"
  by (auto simp: text_step_def Let_def buffer_chunk_def intro!: indexed_snoc split: prod.splits)

lemma text_step_cover:
  "chunkStart (text_step opts st n line) + int (length (currentLines (text_step opts st n line)))
     = (if currentSize st + (int (RuneCountInString line) + 1) > ChunkSize opts \<and> length (currentLines st) > 0
        then int n + 1 else chunkStart st + int (length (currentLines st)) + 1)"
  by (simp add: text_step_def Let_def split: prod.splits)

lemma text_loop_lines:
  "ls \<noteq> [] \<or> currentLines st \<noteq> [] \<Longrightarrow> currentLines (text_loop opts st n ls) \<noteq> []"
  by (induction ls arbitrary: st n) (auto simp: text_step_lines)

lemma text_loop_indexed:
  "indexed (out_chunks st) \<Longrightarrow> indexed (out_chunks (text_loop opts st n ls))"
  by (induction ls arbitrary: st n) (auto simp: text_step_indexed)

lemma text_loop_cover:
  "chunkStart st + int (length (currentLines st)) = int n \<Longrightarrow>
   chunkStart (text_loop opts st n ls) + int (length (currentLines (text_loop opts st n ls)))
     = int (n + length ls)"
proof (induction ls arbitrary: st n)
  case Nil
  then show ?case by simp
next
  case (Cons l ls)
  have "chunkStart (text_step opts st n l) + int (length (currentLines (text_step opts st n l))) = int (Suc n)"
    using Cons.prems by (simp add: text_step_cover)
  from Cons.IH[OF this] show ?case by simp
qed

lemma text_final_indexed:
  assumes "indexed (out_chunks st)"
  shows "indexed (text_final opts st)"
proof (cases "currentLines st = []")
  case True
  then show ?thesis using assms by (simp add: text_final_def)
next
  case False
  let ?buf = "JoinLines (currentLines st)"
  show ?thesis
  proof (cases "out_chunks st = [] \<or> MinChunkSize opts \<le> int (RuneCountInString ?buf)")
    case True
    have "indexed (out_chunks st @ [buffer_chunk st ?buf])"
      by (rule indexed_snoc [OF assms]) (simp add: buffer_chunk_def)
    then show ?thesis using True False by (auto simp: text_final_def Let_def)
  next
    case short: False
    then have ne: "out_chunks st \<noteq> []" by simp
    have "indexed ((out_chunks st)[length (out_chunks st) - 1 :=
            (last (out_chunks st))\<lparr>Content := Content (last (out_chunks st)) @ [CHR 0x0A] @ ?buf,
               EndLine := chunkStart st + int (length (currentLines st)),
               EndChar := chunkStartChar st + currentSize st - 1\<rparr>])"
      by (rule indexed_update_last [OF assms ne]) simp
    then show ?thesis using short False by (simp add: text_final_def Let_def)
  qed
qed

lemma text_final_nonempty:
  "currentLines st \<noteq> [] \<Longrightarrow> text_final opts st \<noteq> []"
  by (auto simp: text_final_def Let_def)

lemma chunkText_nonempty: "chunkText opts content \<noteq> []"
  unfolding chunkText_def
  by (rule text_final_nonempty, rule text_loop_lines) (simp add: SplitLines_nonempty)

lemma chunkText_indexed: "indexed (chunkText opts content)"
  unfolding chunkText_def
  by (rule text_final_indexed, rule text_loop_indexed) (simp add: text_init_def indexed_Nil)

lemma append_subchunks_indexed:
  "indexed cs \<Longrightarrow> indexed (append_subchunks subs b off cs)"
proof (induction subs arbitrary: cs)
  case Nil
  then show ?case by simp
next
  case (Cons sub subs)
  have "indexed (cs @ [sub\<lparr>StartLine := StartLine sub + int b,
                   EndLine := EndLine sub + int b,
                   StartChar := StartChar sub + off,
                   EndChar := EndChar sub + off,
                   ChunkIndex := int (length cs)\<rparr>])"
    by (rule indexed_snoc [OF Cons.prems]) simp
  from Cons.IH [OF this] show ?case by simp
qed

lemma code_loop_indexed:
  "indexed cs \<Longrightarrow> indexed (code_loop opts lines bs cs off)"
proof (induction bs arbitrary: cs off)
  case Nil
  then show ?case by simp
next
  case (Cons b bs)
  show ?case
    by (simp add: Let_def del: append_subchunks.simps)
       (intro conjI impI Cons.IH append_subchunks_indexed indexed_snoc Cons.prems; simp)
qed

lemma chunkCode_nonempty: "chunkCode opts content lang \<noteq> []"
  by (simp add: chunkCode_def Let_def chunkText_nonempty)

lemma chunkCode_indexed: "indexed (chunkCode opts content lang)"
  by (simp add: chunkCode_def Let_def chunkText_indexed code_loop_indexed indexed_Nil)

lemma text_step_behind:
  assumes "behind st" and "chunkStart st + int (length (currentLines st)) = int n"
  shows "behind (text_step opts st n line)"
proof (cases "currentSize st + (int (RuneCountInString line) + 1) > ChunkSize opts \<and> length (currentLines st) > 0")
  case True
  obtain ls sz where ov: "calculateOverlap opts (currentLines st) = (ls, sz)"
    by (cases "calculateOverlap opts (currentLines st)")
  show ?thesis
    using True ov assms(2)
    by (simp add: text_step_def behind_def Let_def buffer_chunk_def)
next
  case False
  then have "text_step opts st n line =
      st\<lparr>currentLines := currentLines st @ [line],
         currentSize := currentSize st + (int (RuneCountInString line) + 1)\<rparr>"
    by (auto simp: text_step_def Let_def)
  then show ?thesis using assms(1) by (auto simp: behind_def)
qed

lemma text_loop_behind:
  "behind st \<Longrightarrow> chunkStart st + int (length (currentLines st)) = int n \<Longrightarrow>
   behind (text_loop opts st n ls)"
proof (induction ls arbitrary: st n)
  case Nil
  then show ?case by simp
next
  case (Cons l ls)
  have "chunkStart (text_step opts st n l) + int (length (currentLines (text_step opts st n l))) = int (Suc n)"
    using Cons.prems(2) by (simp add: text_step_cover)
  from Cons.IH [OF text_step_behind [OF Cons.prems] this] show ?case by simp
qed

lemma butlast_snoc_update:
  "cs \<noteq> [] \<Longrightarrow> cs[length cs - Suc 0 := c] = butlast cs @ [c]"
  by (induction cs rule: rev_induct) simp_all

lemmas eval_simps =
  text_step_def text_init_def text_final_def chunkText_def buffer_chunk_def
  calculateOverlap_def RuneCountInString_def byte_in_def Let_def


text \<open>
  Claim C5.  In \<open>chunkText\<close> the buffer left after the loop over the lines is never empty.
  When no chunk was emitted before, it becomes the only chunk whatever its length; otherwise
  it becomes a further chunk when it counts at least \<open>MinChunkSize\<close> code points; otherwise it
  is appended, after a newline, to the content of the last chunk, whose \<open>EndLine\<close> and
  \<open>EndChar\<close> are moved forward to the end of the buffer (they never move back).  In every
  case the last chunk ends at the last line of the content, and a chunk added after earlier
  ones for the final buffer is never shorter than \<open>MinChunkSize\<close>.
\<close>

theorem chunkText_final_buffer:
  "(let st = text_loop opts text_init 0 (SplitLines content);
        buf = JoinLines (currentLines st);
        n = int (length (SplitLines content))
    in currentLines st \<noteq> [] \<and>
       chunkText opts content =
         (if out_chunks st = [] then [buffer_chunk st buf]
          else if MinChunkSize opts \<le> int (RuneCountInString buf)
          then out_chunks st @ [buffer_chunk st buf]
          else butlast (out_chunks st) @
               [(last (out_chunks st))
                  \<lparr>Content := Content (last (out_chunks st)) @ [CHR 0x0A] @ buf,
                   EndLine := n,
                   EndChar := chunkStartChar st + currentSize st - 1\<rparr>]) \<and>
       EndLine (buffer_chunk st buf) = n \<and>
       EndLine (last (chunkText opts content)) = n \<and>
       (out_chunks st = [] \<or>
        MinChunkSize opts \<le> int (RuneCountInString (Content (last (chunkText opts content)))) \<or>
        length (chunkText opts content) = length (out_chunks st)) \<and>
       (out_chunks st = [] \<or>
        (EndLine (last (out_chunks st)) \<le> n \<and>
         EndChar (last (out_chunks st)) \<le> chunkStartChar st + currentSize st - 1)))"
proof -
  define st where "st = text_loop opts text_init 0 (SplitLines content)"
  define buf where "buf = JoinLines (currentLines st)"
  define n where "n = int (length (SplitLines content))"
  have lines: "currentLines st \<noteq> []"
    unfolding st_def by (rule text_loop_lines) (simp add: SplitLines_nonempty)
  have "chunkStart st + int (length (currentLines st)) = int (0 + length (SplitLines content))"
    unfolding st_def by (rule text_loop_cover) (simp add: text_init_def)
  then have cover: "chunkStart st + int (length (currentLines st)) = n"
    by (simp add: n_def)
  let ?merged = "(last (out_chunks st))
                  \<lparr>Content := Content (last (out_chunks st)) @ [CHR 0x0A] @ buf,
                   EndLine := n,
                   EndChar := chunkStartChar st + currentSize st - 1\<rparr>"
  let ?rhs = "if out_chunks st = [] then [buffer_chunk st buf]
          else if MinChunkSize opts \<le> int (RuneCountInString buf)
          then out_chunks st @ [buffer_chunk st buf]
          else butlast (out_chunks st) @ [?merged]"
  have eq: "chunkText opts content = ?rhs"
    using lines cover
    by (simp add: chunkText_def st_def [symmetric] text_final_def Let_def buf_def [symmetric]
          butlast_snoc_update)
  have bufline: "EndLine (buffer_chunk st buf) = n"
    using cover by (simp add: buffer_chunk_def)
  have lastline: "EndLine (last (chunkText opts content)) = n"
    using bufline by (simp add: eq)
  have sep: "out_chunks st = [] \<or>
        MinChunkSize opts \<le> int (RuneCountInString (Content (last (chunkText opts content)))) \<or>
        length (chunkText opts content) = length (out_chunks st)"
    by (simp add: eq buffer_chunk_def)
  have "behind st"
    unfolding st_def by (rule text_loop_behind) (simp_all add: behind_def text_init_def)
  then have ext: "out_chunks st = [] \<or>
        (EndLine (last (out_chunks st)) \<le> n \<and>
         EndChar (last (out_chunks st)) \<le> chunkStartChar st + currentSize st - 1)"
    using cover by (auto simp: behind_def)
  show ?thesis
    unfolding Let_def st_def [symmetric] buf_def [symmetric] n_def [symmetric]
    using lines eq bufline lastline sep ext by blast
qed

theorem chunkText_final_buffer_witness:
  "chunkText \<lparr>ChunkSize = 10, ChunkOverlap = 3, MinChunkSize = 8\<rparr> ''aaaa\<newline>bbbb\<newline>cc''
     = [\<lparr>Content = ''aaaa\<newline>bbbb\<newline>bbbb\<newline>cc'', StartLine = 1, EndLine = 3,
          StartChar = 0, EndChar = 12, ChunkIndex = 0\<rparr>]"
  using chunkText_final_buffer
    [of "\<lparr>ChunkSize = 10, ChunkOverlap = 3, MinChunkSize = 8\<rparr>" "''aaaa\<newline>bbbb\<newline>cc''"]
  by (simp add: eval_simps)


text \<open>
  Claim C10.  \<open>TextChunker.Chunk\<close> returns no chunk for the empty content; for every other
  content and every file name it returns at least one chunk, and the \<open>ChunkIndex\<close> of each
  chunk is its 0-based position in the result.  The code-aware path never ends with zero
  chunks: when its loop over the blocks produced none it returns what \<open>chunkText\<close> returns.
\<close>

theorem Chunk_nonempty_indexed:
  "TextChunker_Chunk opts [] filename = [] \<and>
   (content \<noteq> [] \<longrightarrow>
      TextChunker_Chunk opts content filename \<noteq> [] \<and>
      map ChunkIndex (TextChunker_Chunk opts content filename)
        = map int [0..<length (TextChunker_Chunk opts content filename)]) \<and>
   chunkCode opts content lang \<noteq> [] \<and>
   (code_loop opts (SplitLines content) (findCodeBoundaries (SplitLines content) lang) [] 0 = []
      \<longrightarrow> chunkCode opts content lang = chunkText opts content)"
proof -
  have "indexed (TextChunker_Chunk opts content filename)"
    by (simp add: TextChunker_Chunk_def Let_def chunkCode_indexed chunkText_indexed indexed_Nil)
  moreover have "content \<noteq> [] \<Longrightarrow> TextChunker_Chunk opts content filename \<noteq> []"
    by (simp add: TextChunker_Chunk_def Let_def chunkCode_nonempty chunkText_nonempty)
  moreover have "TextChunker_Chunk opts [] filename = []"
    by (simp add: TextChunker_Chunk_def)
  moreover have "code_loop opts (SplitLines content) (findCodeBoundaries (SplitLines content) lang) [] 0 = []
      \<Longrightarrow> chunkCode opts content lang = chunkText opts content"
    by (simp add: chunkCode_def Let_def)
  ultimately show ?thesis
    by (simp add: indexed_def chunkCode_nonempty)
qed


theorem Chunk_nonempty_indexed_witness:
  "map ChunkIndex (TextChunker_Chunk \<lparr>ChunkSize = 10, ChunkOverlap = 3, MinChunkSize = 4\<rparr>
      ''package main\<newline>\<newline>func main() {\<newline>}\<newline>func b() {}\<newline>'' ''x.go'') = [0, 1, 2]"
proof -
  have "length (TextChunker_Chunk \<lparr>ChunkSize = 10, ChunkOverlap = 3, MinChunkSize = 4\<rparr>
      ''package main\<newline>\<newline>func main() {\<newline>}\<newline>func b() {}\<newline>'' ''x.go'') = 3"
    by code_simp
  then show ?thesis
    using Chunk_nonempty_indexed
      [of "\<lparr>ChunkSize = 10, ChunkOverlap = 3, MinChunkSize = 4\<rparr>" "''x.go''"
          "''package main\<newline>\<newline>func main() {\<newline>}\<newline>func b() {}\<newline>''" "LangGo"]
    by (simp add: upt_rec)
qed

subsection \<open>Index store\<close>

lemmas example_defs =
  example_db_def example_file_def example_chunks_def example_embeddings_def no_faults_def

lemmas store_eval =
  SQLiteStore_UpsertFile_def upsert_body_def select_file_def chunk_ids_of_file_def
  file_ids_def Let_def Begin_def Exec_def Rollback_def Commit_def

lemma Exec_simps:
  "tx_journal (Exec write tx) = tx_journal tx"
  "tx_db (Exec write tx) = write (tx_db tx)"
  by (simp_all add: Exec_def)

lemma insert_chunks_journal:
  "insert_chunks faults tx fid i rows = (r, tx') \<Longrightarrow> tx_journal tx' = tx_journal tx"
proof (induction rows arbitrary: tx i)
  case Nil
  then show ?case by simp
next
  case (Cons row rows)
  obtain chunk emb where row: "row = (chunk, emb)" by (cases row)
  show ?case
    using Cons.prems Cons.IH unfolding row
    by (auto simp: Let_def Exec_simps split: if_splits)
qed

lemma upsert_body_journal:
  "upsert_body faults now tx storeID file rows = (r, tx') \<Longrightarrow> tx_journal tx' = tx_journal tx"
  by (auto simp: upsert_body_def Let_def Exec_simps split: if_splits dest!: insert_chunks_journal)

lemma insert_chunks_ok:
  "insert_chunks faults tx fid i rows = (None, tx') \<Longrightarrow>
   \<exists>new. tbl_chunks (tx_db tx') = tbl_chunks (tx_db tx) @ new \<and>
         map chunk_payload new = map fst rows \<and>
         list_all (\<lambda>c. cr_FileID c = fid \<and> seq_chunks (tx_db tx) < cr_ID c \<and>
                        cr_ID c \<le> seq_chunks (tx_db tx')) new \<and>
         distinct (map cr_ID new) \<and>
         tbl_chunk_vectors (tx_db tx') =
           tbl_chunk_vectors (tx_db tx) @ zip (map cr_ID new) (map snd rows) \<and>
         set (map cr_ID new) \<inter> set (map fst (tbl_chunk_vectors (tx_db tx))) = {} \<and>
         seq_chunks (tx_db tx) \<le> seq_chunks (tx_db tx') \<and>
         tbl_files (tx_db tx') = tbl_files (tx_db tx) \<and>
         seq_files (tx_db tx') = seq_files (tx_db tx) \<and>
         tbl_stores (tx_db tx') = tbl_stores (tx_db tx)"
proof (induction rows arbitrary: tx i)
  case Nil
  then show ?case by simp
next
  case (Cons row rows)
  obtain chunk emb where row: "row = (chunk, emb)" by (cases row)
  let ?id = "seq_chunks (tx_db tx) + 1"
  let ?c = "\<lparr>cr_ID = ?id, cr_FileID = fid,
              cr_ChunkIndex = sc_ChunkIndex chunk, cr_Content = sc_Content chunk,
              cr_StartLine = sc_StartLine chunk, cr_EndLine = sc_EndLine chunk\<rparr>"
  let ?tx2 = "Exec (\<lambda>db. db\<lparr>tbl_chunk_vectors := tbl_chunk_vectors db @ [(?id, emb)]\<rparr>)
                (Exec (\<lambda>db. db\<lparr>tbl_chunks := tbl_chunks db @ [?c], seq_chunks := ?id\<rparr>) tx)"
  from Cons.prems row
  have fresh: "?id \<notin> set (map fst (tbl_chunk_vectors (tx_db tx)))"
    and rec: "insert_chunks faults ?tx2 fid (Suc i) rows = (None, tx')"
    by (auto simp: Let_def Exec_simps split: if_splits)
  from Cons.IH [OF rec] obtain new where
    n1: "tbl_chunks (tx_db tx') = (tbl_chunks (tx_db tx) @ [?c]) @ new" and
    n2: "map chunk_payload new = map fst rows" and
    n3: "list_all (\<lambda>c. cr_FileID c = fid \<and> ?id < cr_ID c \<and> cr_ID c \<le> seq_chunks (tx_db tx')) new" and
    n4: "distinct (map cr_ID new)" and
    n5: "tbl_chunk_vectors (tx_db tx') =
           (tbl_chunk_vectors (tx_db tx) @ [(?id, emb)]) @ zip (map cr_ID new) (map snd rows)" and
    n6: "set (map cr_ID new) \<inter> set (map fst (tbl_chunk_vectors (tx_db tx) @ [(?id, emb)])) = {}" and
    n7: "?id \<le> seq_chunks (tx_db tx')" and
    n8: "tbl_files (tx_db tx') = tbl_files (tx_db tx)" and
    n9: "seq_files (tx_db tx') = seq_files (tx_db tx)" and
    n10: "tbl_stores (tx_db tx') = tbl_stores (tx_db tx)"
    by (auto simp: Exec_simps)
  have notin: "?id \<notin> set (map cr_ID new)"
    using n3 by (auto simp: list_all_iff)
  have "tbl_chunks (tx_db tx') = tbl_chunks (tx_db tx) @ (?c # new)" using n1 by simp
  moreover have "map chunk_payload (?c # new) = map fst (row # rows)"
    using n2 row by (simp add: chunk_payload_def)
  moreover have "list_all (\<lambda>c. cr_FileID c = fid \<and> seq_chunks (tx_db tx) < cr_ID c \<and>
                        cr_ID c \<le> seq_chunks (tx_db tx')) (?c # new)"
    using n3 n7 by (auto simp: list_all_iff)
  moreover have "distinct (map cr_ID (?c # new))" using n4 notin by simp
  moreover have "tbl_chunk_vectors (tx_db tx') =
      tbl_chunk_vectors (tx_db tx) @ zip (map cr_ID (?c # new)) (map snd (row # rows))"
    using n5 row by simp
  moreover have "set (map cr_ID (?c # new)) \<inter> set (map fst (tbl_chunk_vectors (tx_db tx))) = {}"
    using n6 fresh by auto
  moreover have "seq_chunks (tx_db tx) \<le> seq_chunks (tx_db tx')" using n7 by simp
  ultimately show ?case using n8 n9 n10 by blast
qed

lemma filter_key_single:
  assumes "distinct (map k xs)" "filter (\<lambda>x. k x = a) xs = y # ys"
  shows "ys = []"
proof -
  have d: "distinct (map k (filter (\<lambda>x. k x = a) xs))"
    using assms(1) by (rule distinct_map_filter)
  have "\<forall>x \<in> set (filter (\<lambda>x. k x = a) xs). k x = a"
    by simp
  then show ?thesis using d unfolding assms(2) by (cases ys) auto
qed

lemma filter_zip_key:
  "distinct ks \<Longrightarrow> length ks = length vs \<Longrightarrow>
   map (\<lambda>k. map snd (filter (\<lambda>v. fst v = k) (zip ks vs))) ks = map (\<lambda>v. [v]) vs"
proof (induction ks arbitrary: vs)
  case Nil
  then show ?case by simp
next
  case (Cons k ks)
  then obtain v vs' where vs: "vs = v # vs'" by (cases vs) auto
  have none: "filter (\<lambda>p. fst p = k) (zip ks vs') = []"
    using Cons.prems(1) by (auto simp: filter_empty_conv dest: set_zip_leftD)
  have rest: "map (\<lambda>k'. map snd (filter (\<lambda>p. fst p = k') (zip (k # ks) (v # vs')))) ks
            = map (\<lambda>k'. map snd (filter (\<lambda>p. fst p = k') (zip ks vs'))) ks"
    using Cons.prems(1) by (intro map_cong) auto
  show ?case
    using Cons.IH [of vs'] Cons.prems none rest by (simp add: vs)
qed

lemma new_vectors:
  assumes "distinct ids" "length ids = length es" "set ids \<inter> set (map fst base) = {}"
  shows "map (\<lambda>k. map snd (filter (\<lambda>v. fst v = k) (base @ zip ids es))) ids = map (\<lambda>e. [e]) es"
proof -
  have "map (\<lambda>k. map snd (filter (\<lambda>v. fst v = k) (base @ zip ids es))) ids
      = map (\<lambda>k. map snd (filter (\<lambda>v. fst v = k) (zip ids es))) ids"
  proof (rule map_cong [OF refl])
    fix k assume "k \<in> set ids"
    then have "filter (\<lambda>v. fst v = k) base = []"
      using assms(3) by (auto simp: filter_empty_conv)
    then show "map snd (filter (\<lambda>v. fst v = k) (base @ zip ids es))
             = map snd (filter (\<lambda>v. fst v = k) (zip ids es))" by simp
  qed
  then show ?thesis using filter_zip_key [OF assms(1,2)] by simp
qed

lemma frame_vectors:
  assumes "set ids \<inter> set (map fst base) = {}"
  shows "filter (\<lambda>v. fst v \<notin> set ids) (base @ zip ids es) = base"
proof -
  have "filter (\<lambda>v. fst v \<notin> set ids) base = base"
    using assms by (auto simp: filter_id_conv)
  moreover have "filter (\<lambda>v. fst v \<notin> set ids) (zip ids es) = []"
    by (auto simp: filter_empty_conv dest: set_zip_leftD)
  ultimately show ?thesis by simp
qed

text \<open>The outcome of an upsert, from what its statements have done to the tables.\<close>

lemma upserted_tables:
  fixes db db' :: database and f :: FileRecord
  assumes ok: "db_ok db"
    and files: "filter (\<lambda>g. fr_StoreID g = storeID \<and> fr_ExternalID g = in_ExternalID file)
                  (tbl_files db') = [f]"
    and fields: "fr_Path f = in_Path file" "fr_RelativePath f = in_RelativePath file"
        "fr_Hash f = in_Hash file" "fr_FileSize f = in_FileSize file" "fr_IndexedAt f = now"
    and old: "\<And>c. c \<in> set (tbl_chunks db) \<Longrightarrow>
                list_ex (\<lambda>g. fr_ID g = cr_FileID c \<and> fr_StoreID g = storeID \<and>
                              fr_ExternalID g = in_ExternalID file) (tbl_files db)
                  \<longleftrightarrow> cr_FileID c = fr_ID f"
    and chunks: "tbl_chunks db' = filter (\<lambda>c. cr_FileID c \<noteq> fr_ID f) (tbl_chunks db) @ new"
    and vectors: "tbl_chunk_vectors db' =
        filter (\<lambda>v. fst v \<notin> set (map cr_ID (filter (\<lambda>c. cr_FileID c = fr_ID f) (tbl_chunks db))))
          (tbl_chunk_vectors db) @ zip (map cr_ID new) embeddings"
    and new: "list_all (\<lambda>c. cr_FileID c = fr_ID f \<and> seq_chunks db < cr_ID c) new"
        "distinct (map cr_ID new)" "map chunk_payload new = chunks"
        "length chunks = length embeddings"
        "set (map cr_ID new) \<inter>
           set (map fst (filter (\<lambda>v. fst v \<notin> set (map cr_ID (filter (\<lambda>c. cr_FileID c = fr_ID f) (tbl_chunks db))))
          (tbl_chunk_vectors db))) = {}"
    and stores: "tbl_stores db' = tbl_stores db"
    and others: "filter (\<lambda>g. \<not> (fr_StoreID g = storeID \<and> fr_ExternalID g = in_ExternalID file))
                 (tbl_files db')
               = filter (\<lambda>g. \<not> (fr_StoreID g = storeID \<and> fr_ExternalID g = in_ExternalID file))
                   (tbl_files db)"
  shows "upserted db db' now storeID file chunks embeddings"
proof -
  let ?fid = "fr_ID f"
  let ?oldp = "\<lambda>c. list_ex (\<lambda>g. fr_ID g = cr_FileID c \<and> fr_StoreID g = storeID \<and>
                              fr_ExternalID g = in_ExternalID file) (tbl_files db)"
  let ?cbase = "filter (\<lambda>c. cr_FileID c \<noteq> ?fid) (tbl_chunks db)"
  let ?oldc = "filter (\<lambda>c. cr_FileID c = ?fid) (tbl_chunks db)"
  let ?vbase = "filter (\<lambda>v. fst v \<notin> set (map cr_ID ?oldc)) (tbl_chunk_vectors db)"
  have oldeq: "filter ?oldp (tbl_chunks db) = ?oldc"
    using old by (intro filter_cong) auto
  have neweq: "filter (\<lambda>c. cr_FileID c = ?fid) (tbl_chunks db') = new"
    using new(1) by (simp add: chunks filter_id_conv list_all_iff)
  have lnew: "length new = length embeddings"
    using new(3,4) by (metis length_map)
  have vecs: "map (\<lambda>c. map snd (filter (\<lambda>v. fst v = cr_ID c) (tbl_chunk_vectors db'))) new
               = map (\<lambda>e. [e]) embeddings"
    using new_vectors [OF new(2) _ new(5), of embeddings] lnew
    by (simp add: vectors o_def)
  have gone: "list_all (\<lambda>c. cr_ID c \<notin> set (map cr_ID (tbl_chunks db')) \<and>
                            cr_ID c \<notin> set (map fst (tbl_chunk_vectors db'))) ?oldc"
  proof -
    have "cr_ID c \<notin> set (map cr_ID (tbl_chunks db')) \<and>
          cr_ID c \<notin> set (map fst (tbl_chunk_vectors db'))"
      if "c \<in> set ?oldc" for c
    proof -
      from that have c: "c \<in> set (tbl_chunks db)" "cr_FileID c = ?fid" by auto
      have le: "cr_ID c \<le> seq_chunks db"
        using ok c by (auto simp: db_ok_def list_all_iff)
      have a: "cr_ID c \<notin> set (map cr_ID new)"
        using new(1) le by (auto simp: list_all_iff)
      have b: "cr_ID c \<notin> set (map cr_ID ?cbase)"
      proof
        assume "cr_ID c \<in> set (map cr_ID ?cbase)"
        then obtain c' where c': "c' \<in> set (tbl_chunks db)" "cr_FileID c' \<noteq> ?fid" "cr_ID c' = cr_ID c"
          by auto
        have "inj_on cr_ID (set (tbl_chunks db))"
          using ok by (simp add: db_ok_def distinct_map)
        then have "c = c'" using c c' by (auto dest: inj_onD)
        then show False using c c' by simp
      qed
      have v1: "cr_ID c \<notin> set (map fst ?vbase)"
        using that by auto
      have v2: "cr_ID c \<notin> set (map fst (zip (map cr_ID new) embeddings))"
        using a by (auto dest: set_zip_leftD)
      show ?thesis using a b v1 v2 by (simp add: chunks vectors)
    qed
    then show ?thesis by (simp add: list_all_iff)
  qed
  have fchunks: "filter (\<lambda>c. cr_FileID c \<noteq> ?fid) (tbl_chunks db')
               = filter (\<lambda>c. c \<notin> set ?oldc) (tbl_chunks db)"
  proof -
    have "filter (\<lambda>c. cr_FileID c \<noteq> ?fid) new = []"
      using new(1) by (auto simp: filter_empty_conv list_all_iff)
    moreover have "filter (\<lambda>c. c \<notin> set ?oldc) (tbl_chunks db) = ?cbase"
      by (intro filter_cong) auto
    ultimately show ?thesis by (simp add: chunks)
  qed
  have fvecs: "filter (\<lambda>v. fst v \<notin> set (map cr_ID new)) (tbl_chunk_vectors db') = ?vbase"
    unfolding vectors using frame_vectors [OF new(5)] by simp
  have "upserted db db' now storeID file chunks embeddings =
          (fr_Path f = in_Path file \<and> fr_RelativePath f = in_RelativePath file \<and>
           fr_Hash f = in_Hash file \<and> fr_FileSize f = in_FileSize file \<and>
           fr_IndexedAt f = now \<and>
           map chunk_payload new = chunks \<and>
           map (\<lambda>c. map snd (filter (\<lambda>v. fst v = cr_ID c) (tbl_chunk_vectors db'))) new
             = map (\<lambda>e. [e]) embeddings \<and>
           list_all (\<lambda>c. cr_ID c \<notin> set (map cr_ID (tbl_chunks db')) \<and>
                          cr_ID c \<notin> set (map fst (tbl_chunk_vectors db'))) ?oldc \<and>
           tbl_stores db' = tbl_stores db \<and>
           filter (\<lambda>g. \<not> (fr_StoreID g = storeID \<and> fr_ExternalID g = in_ExternalID file))
               (tbl_files db')
             = filter (\<lambda>g. \<not> (fr_StoreID g = storeID \<and> fr_ExternalID g = in_ExternalID file))
                 (tbl_files db) \<and>
           filter (\<lambda>c. cr_FileID c \<noteq> ?fid) (tbl_chunks db')
             = filter (\<lambda>c. c \<notin> set ?oldc) (tbl_chunks db) \<and>
           filter (\<lambda>v. fst v \<notin> set (map cr_ID new)) (tbl_chunk_vectors db')
             = filter (\<lambda>v. fst v \<notin> set (map cr_ID ?oldc)) (tbl_chunk_vectors db))"
    unfolding upserted_def files list.case Let_def oldeq neweq ..
  then show ?thesis
    using fields new(3) vecs gone stores others fchunks fvecs by blast
qed

lemma upsert_body_update:
  assumes sel: "select_file db storeID (in_ExternalID file) = f0 # fs"
    and ok: "db_ok db"
    and run: "upsert_body faults now (Begin db) storeID file (zip chunks embeddings) = (None, tx')"
    and len: "length chunks = length embeddings"
  shows "upserted db (tx_db tx') now storeID file chunks embeddings \<and> db_ok (tx_db tx')"
proof -
  let ?P = "\<lambda>g. fr_StoreID g = storeID \<and> fr_ExternalID g = in_ExternalID file"
  let ?fid = "fr_ID f0"
  let ?upd = "\<lambda>f. if fr_ID f = ?fid
                    then f\<lparr>fr_Path := in_Path file, fr_RelativePath := in_RelativePath file,
                           fr_Hash := in_Hash file, fr_FileSize := in_FileSize file,
                           fr_IndexedAt := now\<rparr>
                    else f"
  let ?oldc = "filter (\<lambda>c. cr_FileID c = ?fid) (tbl_chunks db)"
  let ?vbase = "filter (\<lambda>v. fst v \<notin> set (map cr_ID ?oldc)) (tbl_chunk_vectors db)"
  let ?cbase = "filter (\<lambda>c. cr_FileID c \<noteq> ?fid) (tbl_chunks db)"
  let ?tx3 = "\<lparr>tx_db = db\<lparr>tbl_chunk_vectors := ?vbase, tbl_chunks := ?cbase,
                 tbl_files := map ?upd (tbl_files db)\<rparr>, tx_journal = Some db\<rparr>"
  have selP: "filter ?P (tbl_files db) = f0 # fs"
    using sel by (simp add: select_file_def)
  have keyeq: "?P = (\<lambda>g. (fr_StoreID g, fr_ExternalID g) = (storeID, in_ExternalID file))"
    by auto
  have fs: "fs = []"
    using filter_key_single [of "\<lambda>g. (fr_StoreID g, fr_ExternalID g)" "tbl_files db"
        "(storeID, in_ExternalID file)" f0 fs] ok selP
    by (simp add: db_ok_def)
  have f0in: "f0 \<in> set (tbl_files db)" and f0P: "?P f0"
    using selP by (metis (mono_tags, lifting) filter_eq_ConsD in_set_conv_decomp,
                   metis (mono_tags, lifting) Cons_eq_filterD)
  have pos: "0 < ?fid" using ok f0in by (auto simp: db_ok_def list_all_iff)
  have inj: "inj_on fr_ID (set (tbl_files db))"
    using ok by (simp add: db_ok_def distinct_map)
  have only: "g = f0" if "g \<in> set (tbl_files db)" "?P g" for g
  proof -
    from that have "g \<in> set (filter ?P (tbl_files db))" by simp
    then show ?thesis unfolding selP fs by simp
  qed
  from run sel pos have ins: "insert_chunks faults ?tx3 ?fid 0 (zip chunks embeddings) = (None, tx')"
    by (simp add: upsert_body_def Let_def chunk_ids_of_file_def Begin_def Exec_def split: if_splits)
  from insert_chunks_ok [OF ins] obtain new where
    n1: "tbl_chunks (tx_db tx') = ?cbase @ new" and
    n2: "map chunk_payload new = map fst (zip chunks embeddings)" and
    n3: "list_all (\<lambda>c. cr_FileID c = ?fid \<and> seq_chunks db < cr_ID c \<and>
                        cr_ID c \<le> seq_chunks (tx_db tx')) new" and
    n4: "distinct (map cr_ID new)" and
    n5: "tbl_chunk_vectors (tx_db tx') = ?vbase @ zip (map cr_ID new) (map snd (zip chunks embeddings))" and
    n6: "set (map cr_ID new) \<inter> set (map fst ?vbase) = {}" and
    n7: "seq_chunks db \<le> seq_chunks (tx_db tx')" and
    n8: "tbl_files (tx_db tx') = map ?upd (tbl_files db)" and
    n9: "seq_files (tx_db tx') = seq_files db" and
    n10: "tbl_stores (tx_db tx') = tbl_stores db"
    by auto
  have fstz: "map fst (zip chunks embeddings) = chunks" and sndz: "map snd (zip chunks embeddings) = embeddings"
    using len by simp_all
  let ?f = "?upd f0"
  have fid: "fr_ID ?f = ?fid" by simp
  have updP: "?P (?upd g) = ?P g" for g by simp
  have files: "filter ?P (tbl_files (tx_db tx')) = [?f]"
  proof -
    have "filter ?P (map ?upd (tbl_files db)) = map ?upd (filter ?P (tbl_files db))"
      by (induction "tbl_files db") (auto simp: filter_map o_def)
    then show ?thesis unfolding n8 selP fs by simp
  qed
  have others: "filter (\<lambda>g. \<not> ?P g) (tbl_files (tx_db tx')) = filter (\<lambda>g. \<not> ?P g) (tbl_files db)"
  proof -
    have "filter (\<lambda>g. \<not> ?P g) (map ?upd (tbl_files db))
        = map ?upd (filter (\<lambda>g. \<not> ?P g) (tbl_files db))"
      by (induction "tbl_files db") (auto simp: filter_map o_def)
    also have "\<dots> = map (\<lambda>g. g) (filter (\<lambda>g. \<not> ?P g) (tbl_files db))"
    proof (rule map_cong [OF refl])
      fix g assume g: "g \<in> set (filter (\<lambda>g. \<not> ?P g) (tbl_files db))"
      then have "fr_ID g \<noteq> ?fid"
        using inj f0in f0P by (auto dest: inj_onD)
      then show "?upd g = g" by simp
    qed
    finally show ?thesis unfolding n8 by simp
  qed
  have old: "list_ex (\<lambda>g. fr_ID g = cr_FileID c \<and> ?P g) (tbl_files db) \<longleftrightarrow> cr_FileID c = fr_ID ?f"
    for c
    unfolding fid list_ex_iff using only f0in f0P by metis
  have up: "upserted db (tx_db tx') now storeID file chunks embeddings"
  proof (rule upserted_tables [where f = ?f and new = new])
    show "db_ok db" by (rule ok)
    show "filter ?P (tbl_files (tx_db tx')) = [?f]" by (rule files)
    show "fr_Path ?f = in_Path file" "fr_RelativePath ?f = in_RelativePath file"
        "fr_Hash ?f = in_Hash file" "fr_FileSize ?f = in_FileSize file" "fr_IndexedAt ?f = now"
      by simp_all
    show "list_ex (\<lambda>g. fr_ID g = cr_FileID c \<and> fr_StoreID g = storeID \<and>
                              fr_ExternalID g = in_ExternalID file) (tbl_files db)
                  \<longleftrightarrow> cr_FileID c = fr_ID ?f" for c
      using old [of c] by simp
    show "tbl_chunks (tx_db tx') = filter (\<lambda>c. cr_FileID c \<noteq> fr_ID ?f) (tbl_chunks db) @ new"
      unfolding fid by (rule n1)
    show "tbl_chunk_vectors (tx_db tx') =
        filter (\<lambda>v. fst v \<notin> set (map cr_ID (filter (\<lambda>c. cr_FileID c = fr_ID ?f) (tbl_chunks db))))
          (tbl_chunk_vectors db) @ zip (map cr_ID new) embeddings"
      unfolding fid using n5 sndz by simp
    show "list_all (\<lambda>c. cr_FileID c = fr_ID ?f \<and> seq_chunks db < cr_ID c) new"
      unfolding fid using n3 by (auto simp: list_all_iff)
    show "distinct (map cr_ID new)" by (rule n4)
    show "map chunk_payload new = chunks" using n2 fstz by simp
    show "length chunks = length embeddings" by (rule len)
    show "set (map cr_ID new) \<inter>
           set (map fst (filter (\<lambda>v. fst v \<notin> set (map cr_ID (filter (\<lambda>c. cr_FileID c = fr_ID ?f) (tbl_chunks db))))
          (tbl_chunk_vectors db))) = {}"
      unfolding fid by (rule n6)
    show "tbl_stores (tx_db tx') = tbl_stores db" by (rule n10)
    show "filter (\<lambda>g. \<not> ?P g) (tbl_files (tx_db tx')) = filter (\<lambda>g. \<not> ?P g) (tbl_files db)"
      by (rule others)
  qed
  have ids: "map fr_ID (map ?upd (tbl_files db)) = map fr_ID (tbl_files db)"
    and keys: "map (\<lambda>f. (fr_StoreID f, fr_ExternalID f)) (map ?upd (tbl_files db))
             = map (\<lambda>f. (fr_StoreID f, fr_ExternalID f)) (tbl_files db)"
    by (simp_all add: o_def)
  have okf: "list_all (\<lambda>f. 0 < fr_ID f \<and> fr_ID f \<le> seq_files db) (map ?upd (tbl_files db))"
    using ok by (auto simp: db_ok_def list_all_iff)
  have okc: "list_all (\<lambda>c. cr_ID c \<le> seq_chunks (tx_db tx') \<and>
                  cr_FileID c \<in> set (map fr_ID (tbl_files db))) (?cbase @ new)"
    using ok n3 n7 f0in by (auto simp: db_ok_def list_all_iff)
  have dc: "distinct (map cr_ID (?cbase @ new))"
  proof -
    have "distinct (map cr_ID ?cbase)"
      using ok by (simp add: db_ok_def distinct_map_filter)
    moreover have "set (map cr_ID ?cbase) \<inter> set (map cr_ID new) = {}"
      using ok n3 by (fastforce simp: db_ok_def list_all_iff)
    ultimately show ?thesis using n4 by simp
  qed
  have "db_ok (tx_db tx')"
    unfolding db_ok_def n1 n8 n9 ids keys
    using okf okc dc ok by (simp add: db_ok_def)
  with up show ?thesis by simp
qed

lemma upsert_body_insert:
  assumes sel: "select_file db storeID (in_ExternalID file) = []"
    and ok: "db_ok db"
    and run: "upsert_body faults now (Begin db) storeID file (zip chunks embeddings) = (None, tx')"
    and len: "length chunks = length embeddings"
  shows "upserted db (tx_db tx') now storeID file chunks embeddings \<and> db_ok (tx_db tx')"
proof -
  let ?P = "\<lambda>g. fr_StoreID g = storeID \<and> fr_ExternalID g = in_ExternalID file"
  let ?fid = "seq_files db + 1"
  let ?row = "\<lparr>fr_ID = ?fid, fr_StoreID = storeID,
                fr_ExternalID = in_ExternalID file, fr_Path = in_Path file,
                fr_RelativePath = in_RelativePath file, fr_Hash = in_Hash file,
                fr_FileSize = in_FileSize file, fr_IndexedAt = now\<rparr>"
  let ?tx1 = "\<lparr>tx_db = db\<lparr>tbl_files := tbl_files db @ [?row], seq_files := ?fid\<rparr>,
               tx_journal = Some db\<rparr>"
  have selP: "filter ?P (tbl_files db) = []"
    using sel by (simp add: select_file_def)
  have noP: "\<not> ?P g" if "g \<in> set (tbl_files db)" for g
    using selP that unfolding filter_empty_conv by blast
  from run sel have ins: "insert_chunks faults ?tx1 ?fid 0 (zip chunks embeddings) = (None, tx')"
    by (simp add: upsert_body_def Let_def Begin_def Exec_def split: if_splits)
  from insert_chunks_ok [OF ins] obtain new where
    n1: "tbl_chunks (tx_db tx') = tbl_chunks db @ new" and
    n2: "map chunk_payload new = map fst (zip chunks embeddings)" and
    n3: "list_all (\<lambda>c. cr_FileID c = ?fid \<and> seq_chunks db < cr_ID c \<and>
                        cr_ID c \<le> seq_chunks (tx_db tx')) new" and
    n4: "distinct (map cr_ID new)" and
    n5: "tbl_chunk_vectors (tx_db tx') =
           tbl_chunk_vectors db @ zip (map cr_ID new) (map snd (zip chunks embeddings))" and
    n6: "set (map cr_ID new) \<inter> set (map fst (tbl_chunk_vectors db)) = {}" and
    n7: "seq_chunks db \<le> seq_chunks (tx_db tx')" and
    n8: "tbl_files (tx_db tx') = tbl_files db @ [?row]" and
    n9: "seq_files (tx_db tx') = ?fid" and
    n10: "tbl_stores (tx_db tx') = tbl_stores db"
    by auto
  have fstz: "map fst (zip chunks embeddings) = chunks" and sndz: "map snd (zip chunks embeddings) = embeddings"
    using len by simp_all
  have below: "fr_ID g \<le> seq_files db" if "g \<in> set (tbl_files db)" for g
    using ok that by (auto simp: db_ok_def list_all_iff)
  have nofile: "cr_FileID c \<noteq> ?fid" if "c \<in> set (tbl_chunks db)" for c
  proof -
    from ok that have "cr_FileID c \<in> set (map fr_ID (tbl_files db))"
      by (auto simp: db_ok_def list_all_iff)
    then have "cr_FileID c \<le> seq_files db" using below by auto
    then show ?thesis by simp
  qed
  have none: "filter (\<lambda>c. cr_FileID c = ?fid) (tbl_chunks db) = []"
    and all: "filter (\<lambda>c. cr_FileID c \<noteq> ?fid) (tbl_chunks db) = tbl_chunks db"
    using nofile by (auto simp: filter_empty_conv filter_id_conv)
  have up: "upserted db (tx_db tx') now storeID file chunks embeddings"
  proof (rule upserted_tables [where f = ?row and new = new])
    show "db_ok db" by (rule ok)
    show "filter ?P (tbl_files (tx_db tx')) = [?row]"
      unfolding n8 using selP by simp
    show "fr_Path ?row = in_Path file" "fr_RelativePath ?row = in_RelativePath file"
        "fr_Hash ?row = in_Hash file" "fr_FileSize ?row = in_FileSize file" "fr_IndexedAt ?row = now"
      by simp_all
    show "list_ex (\<lambda>g. fr_ID g = cr_FileID c \<and> fr_StoreID g = storeID \<and>
                              fr_ExternalID g = in_ExternalID file) (tbl_files db)
                  \<longleftrightarrow> cr_FileID c = fr_ID ?row" if "c \<in> set (tbl_chunks db)" for c
      using noP nofile [OF that] by (auto simp: list_ex_iff)
    show "tbl_chunks (tx_db tx') = filter (\<lambda>c. cr_FileID c \<noteq> fr_ID ?row) (tbl_chunks db) @ new"
      using n1 all by simp
    show "tbl_chunk_vectors (tx_db tx') =
        filter (\<lambda>v. fst v \<notin> set (map cr_ID (filter (\<lambda>c. cr_FileID c = fr_ID ?row) (tbl_chunks db))))
          (tbl_chunk_vectors db) @ zip (map cr_ID new) embeddings"
      using n5 sndz none by simp
    show "list_all (\<lambda>c. cr_FileID c = fr_ID ?row \<and> seq_chunks db < cr_ID c) new"
      using n3 by (auto simp: list_all_iff)
    show "distinct (map cr_ID new)" by (rule n4)
    show "map chunk_payload new = chunks" using n2 fstz by simp
    show "length chunks = length embeddings" by (rule len)
    show "set (map cr_ID new) \<inter>
           set (map fst (filter (\<lambda>v. fst v \<notin> set (map cr_ID (filter (\<lambda>c. cr_FileID c = fr_ID ?row) (tbl_chunks db))))
          (tbl_chunk_vectors db))) = {}"
      using n6 none by simp
    show "tbl_stores (tx_db tx') = tbl_stores db" by (rule n10)
    show "filter (\<lambda>g. \<not> ?P g) (tbl_files (tx_db tx')) = filter (\<lambda>g. \<not> ?P g) (tbl_files db)"
      unfolding n8 by simp
  qed
  have okf: "list_all (\<lambda>f. 0 < fr_ID f \<and> fr_ID f \<le> ?fid) (tbl_files db @ [?row])"
    using ok by (auto simp: db_ok_def list_all_iff)
  have df: "distinct (map fr_ID (tbl_files db @ [?row]))"
  proof -
    have "?fid \<notin> set (map fr_ID (tbl_files db))"
      using below by fastforce
    then show ?thesis using ok by (simp add: db_ok_def)
  qed
  have dk: "distinct (map (\<lambda>f. (fr_StoreID f, fr_ExternalID f)) (tbl_files db @ [?row]))"
  proof -
    have "(storeID, in_ExternalID file)
            \<notin> set (map (\<lambda>f. (fr_StoreID f, fr_ExternalID f)) (tbl_files db))"
      using noP by fastforce
    then show ?thesis using ok by (simp add: db_ok_def)
  qed
  have okc: "list_all (\<lambda>c. cr_ID c \<le> seq_chunks (tx_db tx') \<and>
                  cr_FileID c \<in> set (map fr_ID (tbl_files db @ [?row]))) (tbl_chunks db @ new)"
    using ok n3 n7 by (auto simp: db_ok_def list_all_iff)
  have dc: "distinct (map cr_ID (tbl_chunks db @ new))"
  proof -
    have "set (map cr_ID (tbl_chunks db)) \<inter> set (map cr_ID new) = {}"
      using ok n3 by (fastforce simp: db_ok_def list_all_iff)
    then show ?thesis using n4 ok by (simp add: db_ok_def)
  qed
  have "db_ok (tx_db tx')"
    unfolding db_ok_def n1 n8 n9
    using okf df dk okc dc ok by (simp add: db_ok_def)
  with up show ?thesis by simp
qed

lemma UpsertFile_error_cases:
  "fst (SQLiteStore_UpsertFile faults now db storeID file chunks embeddings) \<noteq> None \<Longrightarrow>
   snd (SQLiteStore_UpsertFile faults now db storeID file chunks embeddings) = db"
proof -
  assume err: "fst (SQLiteStore_UpsertFile faults now db storeID file chunks embeddings) \<noteq> None"
  obtain r tx where body:
    "upsert_body faults now (Begin db) storeID file (zip chunks embeddings) = (r, tx)"
    by (cases "upsert_body faults now (Begin db) storeID file (zip chunks embeddings)")
  have j: "tx_journal tx = Some db"
    using upsert_body_journal [OF body] by (simp add: Begin_def)
  show ?thesis
    using err body j
    by (auto simp: SQLiteStore_UpsertFile_def Rollback_def Commit_def
        split: if_splits option.splits)
qed


lemma two_store_fault:
  "fst (SQLiteStore_UpsertFile second_vector_fails 7 two_store_db 1 example_file example_chunks
          example_embeddings) = Some (Err ''failed to insert vector for chunk'')"
  by (simp add: example_defs store_eval two_store_db_def second_vector_fails_def
      del: set_filter)

lemma two_store_result:
  "SQLiteStore_UpsertFile no_faults 7 two_store_db 1 example_file example_chunks
          example_embeddings
   = (None, two_store_db
       \<lparr>tbl_files :=
          [\<lparr>fr_ID = 1, fr_StoreID = 2, fr_ExternalID = ''src/main.go'',
            fr_Path = ''/other/src/main.go'', fr_RelativePath = ''src/main.go'',
            fr_Hash = ''theirs'', fr_FileSize = 50, fr_IndexedAt = 3\<rparr>,
           \<lparr>fr_ID = 2, fr_StoreID = 1, fr_ExternalID = ''src/main.go'',
            fr_Path = ''/path/src/main.go'', fr_RelativePath = ''src/main.go'',
            fr_Hash = ''hash2'', fr_FileSize = 200, fr_IndexedAt = 7\<rparr>],
        tbl_chunks :=
          [\<lparr>cr_ID = 1, cr_FileID = 1, cr_ChunkIndex = 0, cr_Content = ''theirs'',
            cr_StartLine = 1, cr_EndLine = 1\<rparr>,
           \<lparr>cr_ID = 3, cr_FileID = 2, cr_ChunkIndex = 0, cr_Content = ''v2-a'',
            cr_StartLine = 1, cr_EndLine = 5\<rparr>,
           \<lparr>cr_ID = 4, cr_FileID = 2, cr_ChunkIndex = 1, cr_Content = ''v2-b'',
            cr_StartLine = 6, cr_EndLine = 10\<rparr>],
        tbl_chunk_vectors := [(1, [1, 0]), (3, [0, 1]), (4, [1, 1])],
        seq_chunks := 4\<rparr>)"
  by (simp add: example_defs store_eval two_store_db_def del: set_filter)


text \<open>
  Claim C1.  \<open>UpsertFile\<close> is atomic.  It returns an error whenever the numbers of chunks and
  of embeddings differ.  Whenever it returns an error (the length mismatch, a failure to begin
  or to commit, a failed or constraint-violating statement while it deletes the old vectors
  and chunks, updates or inserts the file row, or inserts a chunk or a vector) the database
  is the one before the call, whatever the statements before the failure have written.  When
  it succeeds on a database that satisfies the schema's integrity, the one file row with the
  given store and external id has exactly the provided chunks, in order, each with exactly
  the provided embedding; no chunk or vector of the file from before the call is left; the
  rest of the database is untouched; and the integrity holds again.
\<close>

theorem UpsertFile_atomic:
  "(length chunks \<noteq> length embeddings \<longrightarrow>
      fst (SQLiteStore_UpsertFile faults now db storeID file chunks embeddings) \<noteq> None) \<and>
   (fst (SQLiteStore_UpsertFile faults now db storeID file chunks embeddings) \<noteq> None \<longrightarrow>
      snd (SQLiteStore_UpsertFile faults now db storeID file chunks embeddings) = db) \<and>
   (db_ok db \<and> fst (SQLiteStore_UpsertFile faults now db storeID file chunks embeddings) = None \<longrightarrow>
      upserted db (snd (SQLiteStore_UpsertFile faults now db storeID file chunks embeddings))
        now storeID file chunks embeddings \<and>
      db_ok (snd (SQLiteStore_UpsertFile faults now db storeID file chunks embeddings)))"
proof (intro conjI impI)
  let ?R = "SQLiteStore_UpsertFile faults now db storeID file chunks embeddings"
  show "fst ?R \<noteq> None" if "length chunks \<noteq> length embeddings"
    using that by (simp add: SQLiteStore_UpsertFile_def)
  show "snd ?R = db" if "fst ?R \<noteq> None"
    using that by (rule UpsertFile_error_cases)
  have both: "upserted db (snd ?R) now storeID file chunks embeddings \<and> db_ok (snd ?R)"
    if h: "db_ok db \<and> fst ?R = None"
  proof -
    from h have ok: "db_ok db" by simp
    obtain r tx where body:
      "upsert_body faults now (Begin db) storeID file (zip chunks embeddings) = (r, tx)"
      by (cases "upsert_body faults now (Begin db) storeID file (zip chunks embeddings)")
    from h body have len: "length chunks = length embeddings" and r: "r = None"
      and res: "snd ?R = tx_db tx"
      by (auto simp: SQLiteStore_UpsertFile_def Rollback_def Commit_def
          split: if_splits option.splits)
    note run = body [unfolded r]
    show ?thesis
    proof (cases "select_file db storeID (in_ExternalID file)")
      case Nil
      then show ?thesis using upsert_body_insert [OF Nil ok run len] res by simp
    next
      case (Cons f0 fs)
      then show ?thesis using upsert_body_update [OF Cons ok run len] res by simp
    qed
  qed
  show "upserted db (snd ?R) now storeID file chunks embeddings" if "db_ok db \<and> fst ?R = None"
    using both [OF that] by simp
  show "db_ok (snd ?R)" if "db_ok db \<and> fst ?R = None"
    using both [OF that] by simp
qed


theorem UpsertFile_atomic_witness:
  "fst (SQLiteStore_UpsertFile no_faults 7 two_store_db 1 example_file example_chunks []) \<noteq> None \<and>
   fst (SQLiteStore_UpsertFile second_vector_fails 7 two_store_db 1 example_file example_chunks
          example_embeddings) \<noteq> None \<and>
   snd (SQLiteStore_UpsertFile second_vector_fails 7 two_store_db 1 example_file example_chunks
          example_embeddings) = two_store_db \<and>
   db_ok two_store_db \<and>
   fst (SQLiteStore_UpsertFile no_faults 7 two_store_db 1 example_file example_chunks
          example_embeddings) = None \<and>
   upserted two_store_db
     (snd (SQLiteStore_UpsertFile no_faults 7 two_store_db 1 example_file example_chunks
          example_embeddings))
     7 1 example_file example_chunks example_embeddings \<and>
   db_ok (snd (SQLiteStore_UpsertFile no_faults 7 two_store_db 1 example_file example_chunks
          example_embeddings))"
proof -
  have mismatch: "length example_chunks \<noteq> length ([] :: embedding list)"
    by (simp add: example_chunks_def)
  have fault:
    "fst (SQLiteStore_UpsertFile second_vector_fails 7 two_store_db 1 example_file
            example_chunks example_embeddings) \<noteq> None"
    by (simp add: two_store_fault)
  have ok: "db_ok two_store_db"
    by (simp add: two_store_db_def db_ok_def)
  have success:
    "fst (SQLiteStore_UpsertFile no_faults 7 two_store_db 1 example_file example_chunks
          example_embeddings) = None"
    by (simp add: two_store_result)
  show ?thesis
    using mismatch fault ok success
      UpsertFile_atomic [of example_chunks "[]" no_faults 7 two_store_db 1 example_file]
      UpsertFile_atomic [of example_chunks example_embeddings second_vector_fails 7
        two_store_db 1 example_file]
      UpsertFile_atomic [of example_chunks example_embeddings no_faults 7 two_store_db 1
        example_file]
    by blast
qed

lemma wrap64_id: "- (2 ^ 63) \<le> x \<Longrightarrow> x < 2 ^ 63 \<Longrightarrow> wrap64 x = x"
  by (simp add: wrap64_def)

lemma kForVec_min:
  "- (2 ^ 63) \<le> topK * 10 \<Longrightarrow> topK * 10 < 2 ^ 63 \<Longrightarrow> kForVec topK = min (topK * 10) 1000"
  by (simp add: kForVec_def wrap64_id Let_def min_def)

lemma join_rows_store:
  "row \<in> set (join_rows db storeID near) \<Longrightarrow> fr_StoreID (fst (snd row)) = storeID"
  by (auto simp: join_rows_def)

lemma Search_props:
  "0 \<le> topK \<and> topK * 10 < 2 ^ 63 \<and>
   SQLiteStore_Search faults db storeID queryEmbedding topK = Inr results \<longrightarrow>
     int (length results) \<le> topK \<and>
     list_all (\<lambda>r. fr_StoreID (res_File r) = storeID \<and> Score r = 1 - Distance r) results \<and>
     sorted (map Distance results) \<and>
     sorted (rev (map Score results)) \<and>
     kForVec topK = min (topK * 10) 1000"
proof (intro impI)
  assume h: "0 \<le> topK \<and> topK * 10 < 2 ^ 63 \<and>
   SQLiteStore_Search faults db storeID queryEmbedding topK = Inr results"
  define ordered where
    "ordered = sort_key (\<lambda>row. snd (snd row))
       (join_rows db storeID (knn db queryEmbedding (nat (kForVec topK))))"
  from h have res: "results = map scan_result (take (nat topK) ordered)"
    by (auto simp: SQLiteStore_Search_def Let_def ordered_def split: if_splits)
  have len: "int (length results) \<le> topK"
    using h by (auto simp: res min_def)
  have store: "fr_StoreID (res_File r) = storeID \<and> Score r = 1 - Distance r"
    if "r \<in> set results" for r
  proof -
    from that obtain row where "row \<in> set (take (nat topK) ordered)" "r = scan_result row"
      by (auto simp: res)
    moreover from this have "row \<in> set (join_rows db storeID (knn db queryEmbedding (nat (kForVec topK))))"
      by (auto simp: ordered_def dest: in_set_takeD)
    ultimately show ?thesis
      by (auto simp: scan_result_def dest: join_rows_store)
  qed
  have dist: "map Distance results = take (nat topK) (map (\<lambda>row. snd (snd row)) ordered)"
    by (simp add: res take_map o_def scan_result_def)
  have "sorted (map (\<lambda>row. snd (snd row)) ordered)"
    by (simp add: ordered_def)
  then have sd: "sorted (map Distance results)"
    by (simp add: dist sorted_wrt_take)
  have sc: "map Score results = map (\<lambda>d. 1 - d) (map Distance results)"
    using store by (simp add: o_def)
  have "sorted (rev (map Score results))"
    unfolding sc using sd
    by (simp add: sorted_wrt_rev sorted_map sorted_wrt_map 
        sorted_wrt_mono_rel [of _ "(\<le>)" "\<lambda>x y. 1 - y \<le> 1 - (x::real)"])
  moreover have "kForVec topK = min (topK * 10) 1000"
    using h by (intro kForVec_min) auto
  ultimately show "int (length results) \<le> topK \<and>
     list_all (\<lambda>r. fr_StoreID (res_File r) = storeID \<and> Score r = 1 - Distance r) results \<and>
     sorted (map Distance results) \<and>
     sorted (rev (map Score results)) \<and>
     kForVec topK = min (topK * 10) 1000"
    using len store sd by (simp add: list_all_iff)
qed


lemma join_rows_no_file:
  "filter (\<lambda>f. fr_StoreID f = storeID) (tbl_files db) = [] \<Longrightarrow> join_rows db storeID near = []"
  by (auto simp: join_rows_def filter_empty_conv)

lemma Search_empty:
  assumes "0 \<le> topK" "topK * 10 < 2 ^ 63" "\<not> faults KnnQuery"
    "vec_dimensions db = Some (length queryEmbedding)"
    "filter (\<lambda>f. fr_StoreID f = storeID) (tbl_files db) = []"
  shows "SQLiteStore_Search faults db storeID queryEmbedding topK = Inr []"
proof -
  have "kForVec topK = min (topK * 10) 1000"
    using assms(1,2) by (intro kForVec_min) auto
  then have "\<not> kForVec topK < 0" using assms(1) by simp
  then show ?thesis
    using assms by (simp add: SQLiteStore_Search_def Let_def join_rows_no_file)
qed

lemmas search_eval =
  SQLiteStore_Search_def kForVec_def wrap64_def knn_def vec_distance_cosine_def dot_def
  join_rows_def scan_result_def Let_def


text \<open>
  Claim C2, as the code has it.  For every store id and query vector, and for every \<open>k\<close> from
  0 up to the largest one whose tenfold fits Go's 64-bit \<open>int\<close>: the \<open>k\<close> requested from the
  vector index is \<open>min (k * 10) 1000\<close>; a search that returns without error returns at most
  \<open>k\<close> results, each of a file of that store, in ascending order of distance, each with score
  one minus its distance, so that the scores never increase; and a store without files gives
  the empty result without error.  The scores are not confined to the interval from 0 to 1.
\<close>

theorem Search_results:
  "0 \<le> topK \<and> topK * 10 < 2 ^ 63 \<longrightarrow>
     kForVec topK = min (topK * 10) 1000 \<and>
     (SQLiteStore_Search faults db storeID queryEmbedding topK = Inr results \<longrightarrow>
        int (length results) \<le> topK \<and>
        list_all (\<lambda>r. fr_StoreID (res_File r) = storeID \<and> Score r = 1 - Distance r) results \<and>
        sorted (map Distance results) \<and>
        sorted (rev (map Score results))) \<and>
     (\<not> faults KnnQuery \<and> vec_dimensions db = Some (length queryEmbedding) \<and>
      filter (\<lambda>f. fr_StoreID f = storeID) (tbl_files db) = [] \<longrightarrow>
        SQLiteStore_Search faults db storeID queryEmbedding topK = Inr [])"
proof (intro impI)
  assume h: "0 \<le> topK \<and> topK * 10 < 2 ^ 63"
  then have k: "kForVec topK = min (topK * 10) 1000"
    by (intro kForVec_min) auto
  show "kForVec topK = min (topK * 10) 1000 \<and>
     (SQLiteStore_Search faults db storeID queryEmbedding topK = Inr results \<longrightarrow>
        int (length results) \<le> topK \<and>
        list_all (\<lambda>r. fr_StoreID (res_File r) = storeID \<and> Score r = 1 - Distance r) results \<and>
        sorted (map Distance results) \<and>
        sorted (rev (map Score results))) \<and>
     (\<not> faults KnnQuery \<and> vec_dimensions db = Some (length queryEmbedding) \<and>
      filter (\<lambda>f. fr_StoreID f = storeID) (tbl_files db) = [] \<longrightarrow>
        SQLiteStore_Search faults db storeID queryEmbedding topK = Inr [])"
    using h k Search_props [of topK faults db storeID queryEmbedding results]
      Search_empty [of topK faults db queryEmbedding storeID]
    by blast
qed

theorem Search_results_witness:
  "kForVec 1 = 10 \<and>
   SQLiteStore_Search no_faults opposite_db 1 [1, 0] 1 =
     Inr [scan_result (hd (tbl_chunks opposite_db), hd (tbl_files opposite_db), 2)] \<and>
   SQLiteStore_Search no_faults opposite_db 2 [1, 0] 1 = Inr []"
proof -
  have a: "(0::int) \<le> 1 \<and> (1::int) * 10 < 2 ^ 63" by simp
  have b: "SQLiteStore_Search no_faults opposite_db 1 [1, 0] 1 =
     Inr [scan_result (hd (tbl_chunks opposite_db), hd (tbl_files opposite_db), 2)]"
    by (simp add: search_eval no_faults_def opposite_db_def)
  have c: "\<not> no_faults KnnQuery \<and> vec_dimensions opposite_db = Some (length [1, 0 :: real]) \<and>
      filter (\<lambda>f. fr_StoreID f = 2) (tbl_files opposite_db) = []"
    by (simp add: no_faults_def opposite_db_def)
  show ?thesis
    using a b c
      Search_results [of 1 no_faults opposite_db 1 "[1, 0]"
        "[scan_result (hd (tbl_chunks opposite_db), hd (tbl_files opposite_db), 2)]"]
      Search_results [of 1 no_faults opposite_db 2 "[1, 0]" "[]"]
    by simp
qed


text \<open>
  The claim's bound on the scores fails: a stored vector opposite to the query is at cosine
  distance 2 and is returned with score \<open>-1\<close>.
\<close>

theorem Search_score_counterexample:
  "SQLiteStore_Search no_faults opposite_db 1 [1, 0] 1 =
     Inr [\<lparr>res_Chunk = \<lparr>cr_ID = 1, cr_FileID = 1, cr_ChunkIndex = 0, cr_Content = ''x'',
                        cr_StartLine = 1, cr_EndLine = 1\<rparr>,
           res_File = \<lparr>fr_ID = 1, fr_StoreID = 1, fr_ExternalID = ''a.go'',
                       fr_Path = ''/path/a.go'', fr_RelativePath = ''a.go'',
                       fr_Hash = ''h'', fr_FileSize = 100, fr_IndexedAt = 5\<rparr>,
           Distance = 2, Score = - 1\<rparr>]"
  by (simp add: search_eval no_faults_def opposite_db_def)

subsection \<open>Indexer\<close>

lemmas indexer_eval =
  example_indexer_def example_world_def example_fileinfo_def example_options_def
  example_embedder_def SQLiteStore_def SQLiteStore_GetFileByExternalID_def
  SQLiteStore_GetStore_def select_file_def example_db_def no_faults_def


text \<open>
  Claim C3.  When \<open>Force\<close> is off and the store returns, for the file's relative path as
  external id, a record whose hash is the walked file's hash, \<open>indexFile\<close> returns without
  error and changes nothing but the counter \<open>SkippedFiles\<close>, which grows by one: the state of
  the store and the list of batches sent to the embedding service are as before.  In the
  loop of \<open>Index\<close>, unless the context is cancelled, the iteration for such a file goes on
  to the next file with that world (and the file counted as processed).
\<close>

theorem indexFile_hash_skip:
  "\<not> Force opts \<and>
   GetFileByExternalID (idx_store idx) (store_state w) (sr_ID storeRecord) (fi_RelPath fi)
     = Inr (Some existing) \<and>
   fr_Hash existing = fi_Hash fi \<longrightarrow>
     indexFile idx opts storeRecord fi w =
       Returns (None, w\<lparr>progress := (progress w)\<lparr>SkippedFiles := SkippedFiles (progress w) + 1\<rparr>\<rparr>) \<and>
     (\<exists>w'. indexFile idx opts storeRecord fi w = Returns (None, w') \<and>
           store_state w' = store_state w \<and>
           embed_calls w' = embed_calls w \<and>
           SkippedFiles (progress w') = SkippedFiles (progress w) + 1) \<and>
     (ctx_done w \<or>
      index_files idx opts storeRecord (fi # files) w =
        index_files idx opts storeRecord files
          (report opts
             ((ctx_poll w)\<lparr>progress := (progress w)
                \<lparr>CurrentFile := fi_RelPath fi,
                 SkippedFiles := SkippedFiles (progress w) + 1,
                 ProcessedFiles := ProcessedFiles (progress w) + 1\<rparr>\<rparr>)))"
  by (simp add: indexFile_def ctx_poll_def)

theorem indexFile_hash_skip_witness:
  "indexFile example_indexer example_options (hd (tbl_stores example_db)) example_fileinfo
      example_world =
   Returns (None,
     example_world\<lparr>progress := (progress example_world)\<lparr>SkippedFiles := 1\<rparr>\<rparr>)"
proof -
  have "\<not> Force example_options \<and>
     GetFileByExternalID (idx_store example_indexer) (store_state example_world)
        (sr_ID (hd (tbl_stores example_db))) (fi_RelPath example_fileinfo)
       = Inr (Some (hd (tbl_files example_db))) \<and>
     fr_Hash (hd (tbl_files example_db)) = fi_Hash example_fileinfo"
    by (simp add: indexer_eval)
  then show ?thesis
    using indexFile_hash_skip [of example_options example_indexer example_world
        "hd (tbl_stores example_db)" example_fileinfo "hd (tbl_files example_db)" "[]"]
    by (simp add: example_world_def)
qed


text \<open>On the nil record, whatever the store, \<open>Clear\<close> and \<open>Stats\<close> panic.\<close>

lemma Clear_nil_record:
  "GetStore (idx_store idx) (store_state w) storeName = Inr None \<Longrightarrow>
   Indexer_Clear idx storeName w = Panics ''invalid memory address or nil pointer dereference'' \<and>
   Indexer_Stats idx storeName w = Panics ''invalid memory address or nil pointer dereference''"
  by (simp add: Indexer_Clear_def Indexer_Stats_def)

text \<open>
  Claim C9: for a store name for which no store exists, \<open>Indexer.Clear\<close> and
  \<open>Indexer.Stats\<close> return a ``store not found'' error and never dereference the nil record,
  as \<open>Indexer.DeleteFile\<close> does.  The code does not do this.  \<open>GetStore\<close> returns the nil
  record with a nil error for a store that does not exist; \<open>Clear\<close> and \<open>Stats\<close> test the
  error only and then read the record's \<open>ID\<close>: on the example store, asked for the absent
  store \<open>missing\<close>, both panic where \<open>DeleteFile\<close> returns the error.
\<close>

theorem Clear_Stats_absent_store:
  "Indexer_Clear example_indexer ''missing'' example_world
     = Panics ''invalid memory address or nil pointer dereference'' \<and>
   Indexer_Stats example_indexer ''missing'' example_world
     = Panics ''invalid memory address or nil pointer dereference'' \<and>
   Indexer_DeleteFile example_indexer ''missing'' ''a.go'' example_world
     = Returns (Some (Err ''store not found: missing''), example_world)"
  by (simp add: Indexer_Clear_def Indexer_Stats_def Indexer_DeleteFile_def indexer_eval)

subsection \<open>Watcher\<close>

lemmas path_eval =
  isIndexableFile_def is_directory_def Ext_def Base_def IsPathSeparator_def
  lower_byte_def DetectLanguage_def filenameToLang_def extToLang_def Lang_defs HasPrefix_def

lemmas watcher_eval =
  handleEvent_def flushDebounced_def flush_entry_def handleModify_def handleDelete_def
  Indexer_DeleteFile_def IndexSingleFile_def getOrCreateStore_def rel_or_empty_def
  Has_def Create_def Write_def Remove_def Rename_def
  example_watcher_def idle_watcher_def pending_write_def write_event_def remove_event_def
  removed_indexer_def removed_fs_def present_fs_def SQLiteStore_DeleteFile_def
  chunk_ids_of_file_def ctx_done_def ctx_poll_def Let_def


lemma ToLower_empty: "ToLower s = [] \<longleftrightarrow> s = []"
  by (cases s) simp_all

text \<open>
  Claim C8, as the code has it.  \<open>isIndexableFile\<close> consults the extension, the detected
  language and the result of \<open>os.Stat\<close>: a path is indexable exactly when its extension is
  not empty, its detected language is not empty, \<open>os.Stat\<close> succeeds, and \<open>max_file_size\<close>
  is not positive or the size does not exceed it.  A file without extension is rejected
  whatever its language.
\<close>

theorem isIndexableFile_iff:
  "isIndexableFile maxFileSize fs path =
     (Ext path \<noteq> [] \<and> DetectLanguage path \<noteq> LangUnknown \<and>
      (case fs path of
         None \<Rightarrow> False
       | Some info \<Rightarrow> maxFileSize \<le> 0 \<or> st_Size info \<le> maxFileSize))"
  by (auto simp: isIndexableFile_def Let_def ToLower_empty split: option.splits)

theorem isIndexableFile_iff_witness:
  "isIndexableFile 1048576 present_fs ''/path/src/main.go'' \<and>
   \<not> isIndexableFile 10 present_fs ''/path/src/main.go'' \<and>
   \<not> isIndexableFile 1048576 removed_fs ''/path/src/main.go''"
  using isIndexableFile_iff [of 1048576 present_fs "''/path/src/main.go''"]
    isIndexableFile_iff [of 10 present_fs "''/path/src/main.go''"]
    isIndexableFile_iff [of 1048576 removed_fs "''/path/src/main.go''"]
  by (simp add: path_eval present_fs_def removed_fs_def)


text \<open>
  The claim fails at \<open>Makefile\<close>: its language is recognised (\<open>shell\<close>) and its size is
  within the limit, but it has no extension and is not indexable.
\<close>

theorem isIndexableFile_Makefile_counterexample:
  "DetectLanguage ''/path/Makefile'' = ''shell'' \<and>
   makefile_fs ''/path/Makefile'' = Some \<lparr>st_IsDir = False, st_Size = 120, st_ModTime = 4\<rparr> \<and>
   (120::int) \<le> 1048576 \<and>
   \<not> isIndexableFile 1048576 makefile_fs ''/path/Makefile''"
  by (simp add: path_eval makefile_fs_def)


text \<open>
  Claim C4: within one debounce window the pending map holds the latest op observed for
  each path, each event overwriting the stored op, and a path whose latest op is \<open>Remove\<close>
  is drained as a delete only.  The code does not do this.  A \<open>Write\<close> to an indexed file is
  queued.  When the file is then removed, \<open>handleEvent\<close> drops the \<open>Remove\<close> event, because
  \<open>isIndexableFile\<close> asks \<open>os.Stat\<close> for a file that is gone: the pending map keeps
  \<open>Write\<close>.  The drain then runs the modify path (a delete from the store followed by an
  \<open>IndexSingleFile\<close> that fails at \<open>os.Stat\<close>) and reports no \<open>delete\<close> event.  With nothing
  pending, the \<open>Remove\<close> event leaves the map empty, the drain does nothing and the removed
  file stays in the store.
\<close>

theorem Remove_event_dropped:
  "handleEvent example_watcher present_fs write_event idle_watcher = pending_write \<and>
   handleEvent example_watcher removed_fs remove_event pending_write = pending_write \<and>
   debounce pending_write = [(''/path/src/main.go'', Write)] \<and>
   flushDebounced example_watcher removed_indexer pending_write =
     Returns (idle_watcher\<lparr>idx_world := example_world
                \<lparr>store_state := snd (SQLiteStore_DeleteFile no_faults example_db 1 ''src/main.go'')\<rparr>\<rparr>) \<and>
   emitted idle_watcher = [] \<and>
   handleEvent example_watcher removed_fs remove_event idle_watcher = idle_watcher \<and>
   flushDebounced example_watcher removed_indexer idle_watcher = Returns idle_watcher \<and>
   select_file (store_state (idx_world idle_watcher)) 1 ''src/main.go'' = tbl_files example_db \<and>
   tbl_files example_db \<noteq> []"
proof -
  have queued: "handleEvent example_watcher present_fs write_event idle_watcher = pending_write"
    by (simp add: watcher_eval path_eval)
  have kept: "handleEvent example_watcher removed_fs remove_event pending_write = pending_write"
    by (simp add: watcher_eval path_eval)
  have pending: "debounce pending_write = [(''/path/src/main.go'', Write)]"
    by (simp add: watcher_eval)
  have drained: "flushDebounced example_watcher removed_indexer pending_write =
     Returns (idle_watcher\<lparr>idx_world := example_world
                \<lparr>store_state := snd (SQLiteStore_DeleteFile no_faults example_db 1 ''src/main.go'')\<rparr>\<rparr>)"
    by (simp add: watcher_eval indexer_eval)
  have quiet: "emitted idle_watcher = []"
    by (simp add: idle_watcher_def)
  have dropped: "handleEvent example_watcher removed_fs remove_event idle_watcher = idle_watcher"
    by (simp add: watcher_eval path_eval)
  have undrained: "flushDebounced example_watcher removed_indexer idle_watcher = Returns idle_watcher"
    by (simp add: watcher_eval)
  have stale: "select_file (store_state (idx_world idle_watcher)) 1 ''src/main.go'' = tbl_files example_db"
    by (simp add: idle_watcher_def example_world_def example_db_def select_file_def)
  have "tbl_files example_db \<noteq> []"
    by (simp add: example_db_def)
  with queued kept pending drained quiet dropped undrained stale show ?thesis
    by blast
qed


text \<open>What the drain does for an entry that does carry \<open>Remove\<close> or \<open>Rename\<close>: the
  indexer's \<open>DeleteFile\<close> and nothing else; and an accepted event overwrites the pending op
  of its path only.\<close>

lemma flush_entry_remove:
  assumes "Has (snd entry) Remove \<or> Has (snd entry) Rename"
  shows "flush_entry wt idx entry ws =
     (case Indexer_DeleteFile idx (wt_storeName wt) (rel_or_empty idx (wt_root wt) (fst entry))
             (idx_world ws) of
        Panics msg \<Rightarrow> Panics msg
      | Returns (Some e, w) \<Rightarrow> Returns (ws\<lparr>idx_world := w\<rparr>)
      | Returns (None, w) \<Rightarrow>
          Returns (ws\<lparr>idx_world := w,
                      emitted := emitted ws @ [(''delete'', rel_or_empty idx (wt_root wt) (fst entry))]\<rparr>))"
  using assms by (simp add: flush_entry_def handleDelete_def Let_def)

lemma Indexer_DeleteFile_effects:
  "Indexer_DeleteFile idx name relPath w = Returns (err, w') \<Longrightarrow>
   embed_calls w' = embed_calls w \<and> progress w' = progress w \<and>
   (store_state w' = store_state w \<or>
    (\<exists>r. GetStore (idx_store idx) (store_state w) name = Inr (Some r) \<and>
         store_state w' = snd (DeleteFile (idx_store idx) (store_state w) (sr_ID r) relPath)))"
  by (auto simp: Indexer_DeleteFile_def split: sum.splits option.splits prod.splits)

lemma set_op_latest: "map_of (set_op path op es) path = Some op"
  by (induction es) auto

lemma set_op_other: "p \<noteq> path \<Longrightarrow> map_of (set_op path op es) p = map_of es p"
  by (induction es) auto

subsection \<open>Tool server\<close>

lemmas trim_eval = TrimSpace_def space_len_def space_runes_def HasPrefix_def Let_def

lemmas server_eval =
  example_server_def fresh_server_def unknown_method_line_def quoted_def known_methods_def
  error_message_def


text \<open>
  Claim C7.  For a line read by the loop of \<open>Run\<close>: a line of white space only changes
  nothing and produces no response; a line that is not white space only and fails to parse
  produces one response, the JSON-RPC error with code \<open>-32700\<close> and a nil id; a parsed
  request whose method is none of \<open>initialize\<close>, \<open>initialized\<close>, \<open>tools/list\<close>,
  \<open>tools/call\<close>, \<open>ping\<close> produces one response, the error with code \<open>-32601\<close> and the
  request's id.  Unless the context is cancelled, \<open>Run\<close> handles each line read in this way
  and goes on with the next read.
\<close>

theorem serve_line_errors:
  "(TrimSpace line = [] \<longrightarrow> serve_line srv line st = Returns st) \<and>
   (TrimSpace line \<noteq> [] \<and> Unmarshal srv (TrimSpace line) = Inl e \<longrightarrow>
      serve_line srv line st =
        Returns (st\<lparr>responses := responses st @
                  [\<lparr>resp_JSONRPC = ''2.0'', resp_ID = None, resp_Result = None,
                    resp_Error = Some \<lparr>Code = - 32700, Message = ''Parse error'',
                                       Data = error_message e\<rparr>\<rparr>]\<rparr>)) \<and>
   (TrimSpace line \<noteq> [] \<and> Unmarshal srv (TrimSpace line) = Inr req \<and>
    Method req \<notin> set known_methods \<longrightarrow>
      serve_line srv line st =
        Returns (st\<lparr>responses := responses st @
                  [\<lparr>resp_JSONRPC = ''2.0'', resp_ID = req_ID req, resp_Result = None,
                    resp_Error = Some \<lparr>Code = - 32601, Message = ''Method not found'',
                                       Data = Method req\<rparr>\<rparr>]\<rparr>)) \<and>
   (srv_ctx st \<noteq> Some 0 \<longrightarrow>
      Run srv (ReadLine line # reads) st =
        (case serve_line srv line (st\<lparr>srv_ctx := map_option (\<lambda>n. n - 1) (srv_ctx st)\<rparr>) of
           Panics msg \<Rightarrow> Panics msg
         | Returns st2 \<Rightarrow> Run srv reads st2))"
  by (simp add: serve_line_def handleRequest_def sendError_def known_methods_def
        ErrorCodeParse_def ErrorCodeMethodNotFound_def Let_def)


theorem serve_line_errors_witness:
  "serve_line example_server ''  \<newline>'' fresh_server = Returns fresh_server \<and>
   serve_line example_server ''not json\<newline>'' fresh_server =
     Returns (fresh_server\<lparr>responses :=
        [\<lparr>resp_JSONRPC = ''2.0'', resp_ID = None, resp_Result = None,
          resp_Error = Some \<lparr>Code = - 32700, Message = ''Parse error'',
                             Data = ''invalid character''\<rparr>\<rparr>]\<rparr>) \<and>
   serve_line example_server (unknown_method_line @ ''\<newline>'') fresh_server =
     Returns (fresh_server\<lparr>responses :=
        [\<lparr>resp_JSONRPC = ''2.0'', resp_ID = Some ''7'', resp_Result = None,
          resp_Error = Some \<lparr>Code = - 32601, Message = ''Method not found'',
                             Data = ''resources/list''\<rparr>\<rparr>]\<rparr>)"
proof -
  have blank: "TrimSpace ''  \<newline>'' = []"
    by (simp add: trim_eval)
  have junk: "TrimSpace ''not json\<newline>'' = ''not json''"
    by (simp add: trim_eval)
  have junk_parse: "Unmarshal example_server ''not json'' = Inl (Err ''invalid character'')"
    by (simp add: server_eval)
  have req: "TrimSpace (unknown_method_line @ ''\<newline>'') = unknown_method_line"
    by (simp add: trim_eval server_eval)
  have req_ne: "unknown_method_line \<noteq> []"
    by (simp add: server_eval)
  have req_parse: "Unmarshal example_server unknown_method_line =
      Inr \<lparr>req_JSONRPC = ''2.0'', req_ID = Some ''7'', Method = ''resources/list'', Params = None\<rparr>"
    by (simp add: example_server_def)
  have unknown: "''resources/list'' \<notin> set known_methods"
    by (simp add: known_methods_def)
  show ?thesis
    using blank junk junk_parse req req_ne req_parse unknown
      serve_line_errors [where line = "''  \<newline>''" and srv = example_server and st = fresh_server]
      serve_line_errors [where line = "''not json\<newline>''" and srv = example_server
         and e = "Err ''invalid character''" and st = fresh_server]
      serve_line_errors [where line = "unknown_method_line @ ''\<newline>''" and srv = example_server
         and req = "\<lparr>req_JSONRPC = ''2.0'', req_ID = Some ''7'', Method = ''resources/list'',
                      Params = None\<rparr>"
         and st = fresh_server]
    by (simp add: fresh_server_def error_message_def)
qed

subsection \<open>File walker\<close>

lemma visit_file_yield:
  assumes "visit_file fw fn path relPath name node s = (r, s')"
    and "\<not> IncludeHidden (fw_opts fw)"
  shows "set (map fi_RelPath (yielded s'))
           \<subseteq> set (map fi_RelPath (yielded s)) \<union> set (visible_entry relPath (File name node))"
  using assms
  by (auto simp: visit_file_def Let_def shouldSkipFile_def
      split: if_splits option.splits prod.splits)

lemma visit_dir_yield:
  "visit_dir fw name relPath s = (r, s') \<Longrightarrow> yielded s' = yielded s"
  by (auto simp: visit_dir_def split: if_splits)

lemma visit_dir_hidden:
  "\<not> IncludeHidden (fw_opts fw) \<Longrightarrow> HasPrefix name ''.'' \<Longrightarrow>
   visit_dir fw name relPath s
     = (Some SkipDir, s\<lparr>ws_stats := (ws_stats s)\<lparr>DirsSkipped := DirsSkipped (ws_stats s) + 1\<rparr>\<rparr>)"
  by (simp add: visit_dir_def FileWalker_shouldSkipDir_def)

lemma walk_yield:
  fixes fn :: "FileInfo \<Rightarrow> 'a \<Rightarrow> walk_err option \<times> 'a"
  shows "walk_entry fw fn path relPath e s = (r, s') \<Longrightarrow> \<not> IncludeHidden (fw_opts fw) \<Longrightarrow>
         set (map fi_RelPath (yielded s'))
           \<subseteq> set (map fi_RelPath (yielded s)) \<union> set (visible_entry relPath e)"
    and "walk_children fw fn path relPath es s = (r, s') \<Longrightarrow> \<not> IncludeHidden (fw_opts fw) \<Longrightarrow>
         set (map fi_RelPath (yielded s'))
           \<subseteq> set (map fi_RelPath (yielded s)) \<union> set (visible_children relPath es)"
proof (induction fw fn path relPath e s and fw fn path relPath es s
       arbitrary: r s' and r s' rule: walk_entry_walk_children.induct)
  case (1 fw fn path relPath name node s)
  then show ?case using visit_file_yield [of fw fn path relPath name node s r s'] by simp
next
  case (2 fw fn path relPath name entries s)
  obtain v s1 where vd: "visit_dir fw name relPath s = (v, s1)"
    by (cases "visit_dir fw name relPath s")
  have same: "yielded s1 = yielded s"
    using visit_dir_yield [OF vd] .
  show ?case
  proof (cases v)
    case None
    then have notskip: "\<not> FileWalker_shouldSkipDir fw name relPath"
      using vd by (auto simp: visit_dir_def split: if_splits)
    then have vis: "\<not> HasPrefix name ''.''"
      using "2.prems"(2) by (auto simp: FileWalker_shouldSkipDir_def split: if_splits)
    from None vd "2.prems"(1) have "walk_children fw fn path relPath entries s1 = (r, s')"
      by simp
    from "2.IH" [OF vd [symmetric] None this "2.prems"(2)] show ?thesis
      using same vis by simp
  next
    case (Some err)
    then have "s' = s1"
      using vd "2.prems"(1) by (cases err) auto
    then show ?thesis using same by auto
  qed
next
  case (3 fw fn path relPath s)
  then show ?case by simp
next
  case (4 fw fn path relPath e entries s)
  let ?p = "join_path path (entry_name e)" and ?rel = "join_rel relPath (entry_name e)"
  obtain v s1 where we: "walk_entry fw fn ?p ?rel e s = (v, s1)"
    by (cases "walk_entry fw fn ?p ?rel e s")
  have first: "set (map fi_RelPath (yielded s1))
           \<subseteq> set (map fi_RelPath (yielded s)) \<union> set (visible_entry ?rel e)"
    using "4.IH"(1) [OF we "4.prems"(2)] .
  show ?case
  proof (cases v)
    case None
    from None we "4.prems"(1) have "walk_children fw fn path relPath entries s1 = (r, s')"
      by simp
    from "4.IH"(2) [OF we [symmetric] None this "4.prems"(2)] first show ?thesis
      by auto
  next
    case (Some err)
    then have "s' = s1"
      using we "4.prems"(1) by (cases err) auto
    then show ?thesis using first by auto
  qed
qed

lemmas walker_eval =
  Walk_def visit_dir_def visit_file_def FileWalker_shouldSkipDir_def shouldSkipFile_def
  isBinaryContent_def join_path_def join_rel_def no_stats_def
  walker_at_def example_tree_def collect_def text_file_def Let_def


text \<open>What the walker does with hidden entries when \<open>IncludeHidden\<close> is off: each file
  handed to the caller has a relative path that leads through directories whose names do
  not begin with a dot to a file whose name does not begin with a dot; and when the name of
  the root directory begins with a dot the walk skips the root, counts one skipped directory
  and yields no file.\<close>

lemma Walk_skips_hidden:
  "\<not> IncludeHidden (fw_opts fw) \<longrightarrow>
     list_all (\<lambda>fi. fi_RelPath fi \<in> set (visible_children ''.'' entries))
       (yielded (snd (Walk fw fn entries user))) \<and>
     (HasPrefix (Base (Root (fw_opts fw))) ''.'' \<longrightarrow>
        Walk fw fn entries user =
          (None, \<lparr>ws_stats = no_stats\<lparr>DirsSkipped := 1\<rparr>, ws_user = user, yielded = []\<rparr>))"
proof (intro impI conjI)
  assume hid: "\<not> IncludeHidden (fw_opts fw)"
  let ?s0 = "\<lparr>ws_stats = no_stats, ws_user = user, yielded = []\<rparr>"
  let ?root = "Dir (Base (Root (fw_opts fw))) entries"
  obtain r s where w: "walk_entry fw fn (Root (fw_opts fw)) ''.'' ?root ?s0 = (r, s)"
    by (cases "walk_entry fw fn (Root (fw_opts fw)) ''.'' ?root ?s0")
  have "set (map fi_RelPath (yielded s)) \<subseteq> set (visible_entry ''.'' ?root)"
    using walk_yield(1) [OF w hid] by simp
  also have "\<dots> \<subseteq> set (visible_children ''.'' entries)"
    by simp
  finally have sub: "set (map fi_RelPath (yielded s)) \<subseteq> set (visible_children ''.'' entries)" .
  have "snd (Walk fw fn entries user) = s"
    using w by (auto simp: Walk_def split: option.splits walk_err.splits)
  then show "list_all (\<lambda>fi. fi_RelPath fi \<in> set (visible_children ''.'' entries))
       (yielded (snd (Walk fw fn entries user)))"
    using sub by (auto simp: list_all_iff)
  show "Walk fw fn entries user =
          (None, \<lparr>ws_stats = no_stats\<lparr>DirsSkipped := 1\<rparr>, ws_user = user, yielded = []\<rparr>)"
    if "HasPrefix (Base (Root (fw_opts fw))) ''.''"
    using that hid by (simp add: Walk_def visit_dir_hidden no_stats_def)
qed

text \<open>
  Claim C6: when \<open>include_hidden\<close> is false the file walker skips dotfiles and
  dot-directories entirely, except for the root directory itself, which is walked even if
  its name begins with a dot.  The code does not make the exception.  \<open>WalkDir\<close> hands
  the root to the callback with its base name, and \<open>shouldSkipDir\<close> tests the name alone:
  the tree that yields \<open>lib/lib.go\<close> and \<open>main.go\<close> under the root \<open>/home/u/project\<close>
  yields nothing under the root \<open>/home/u/.dotfiles\<close>, where the walk skips the root, counts
  one skipped directory and returns nil.
\<close>

theorem Walk_dot_root_skipped:
  "map fi_RelPath (yielded (snd (Walk (walker_at ''/home/u/project'') collect example_tree [])))
     = [''lib/lib.go'', ''main.go''] \<and>
   Base (Root (fw_opts (walker_at ''/home/u/.dotfiles''))) = ''.dotfiles'' \<and>
   IncludeHidden (fw_opts (walker_at ''/home/u/.dotfiles'')) = False \<and>
   Walk (walker_at ''/home/u/.dotfiles'') collect example_tree [] =
     (None, \<lparr>ws_stats = no_stats\<lparr>DirsSkipped := 1\<rparr>, ws_user = [], yielded = []\<rparr>)"
  by (simp add: walker_eval path_eval)

end
